theory Spec2Isabelle
  imports Complex_Main "HOL-Library.Word" "HOL-Library.Signed_Division"
begin

unbundle bit_operations_syntax

section \<open>The ToupCam camera driver: data model\<close>

text \<open>
  The model follows \<^verbatim>\<open>src/3rdparty/indi-toupcam/indi_toupcam.cpp\<close>. The driver object
  \<^verbatim>\<open>TOUPCAM\<close> is a record; every member function takes the object and returns it updated.
  C++ \<^verbatim>\<open>int\<close> values are \<open>int\<close> (signed overflow is undefined in C++ and is not modelled),
  \<^verbatim>\<open>uint32_t\<close> values are \<open>32 word\<close> or an \<open>int\<close> reduced \<open>mod 2 ^ 32\<close>, bytes are \<open>8 word\<close>.
  Integer division and remainder of C++ truncate towards zero: \<open>sdiv\<close> and \<open>smod\<close>.

  Everything the driver calls outside itself (the vendor SDK, the event loop's timers, the
  consumer callbacks of the base class, \<^verbatim>\<open>usleep\<close>, \<^verbatim>\<open>malloc\<close>/\<^verbatim>\<open>free\<close>) is recorded, in
  order, in the field \<open>trace\<close>. What the SDK answers is an argument of each operation:
  a function \<open>hw\<close> from the call to its \<^verbatim>\<open>HRESULT\<close> (a call failed iff the result is
  negative).
\<close>

type_synonym byte = "8 word"

type_synonym hresult = int

text \<open>\<^verbatim>\<open>struct timeval\<close>: seconds and microseconds.\<close>

type_synonym timeval = "int \<times> int"

datatype IPState = IPS_IDLE | IPS_OK | IPS_BUSY | IPS_ALERT

datatype video_format = TC_VIDEO_MONO_8 | TC_VIDEO_MONO_16 | TC_VIDEO_RGB | TC_VIDEO_RAW

datatype INDI_PIXEL_FORMAT =
  INDI_MONO | INDI_RGB | INDI_BAYER_RGGB | INDI_BAYER_GRBG | INDI_BAYER_GBRG | INDI_BAYER_BGGR

datatype toupcam_option =
  TOUPCAM_OPTION_RAW | TOUPCAM_OPTION_BITDEPTH | TOUPCAM_OPTION_PIXEL_FORMAT
  | TOUPCAM_OPTION_RGB | TOUPCAM_OPTION_TRIGGER | TOUPCAM_OPTION_BINNING

text \<open>
  The value written to an SDK option: a number, or the constant
  \<^verbatim>\<open>TOUPCAM_PIXELFORMAT_RAW12\<close> of the SDK header, which is not among the sources and is
  kept symbolic.
\<close>

datatype option_value = Val int | TOUPCAM_PIXELFORMAT_RAW12

datatype guide_direction = TOUPCAM_NORTH | TOUPCAM_SOUTH | TOUPCAM_EAST | TOUPCAM_WEST

datatype guide_axis = AXIS_RA | AXIS_DE

datatype timer_callback = sendImageCB | TimerHelperNS | TimerHelperWE

datatype sdk_call =
  Toupcam_Stop
  | Toupcam_StartPullModeWithCallback
  | Toupcam_put_Option toupcam_option option_value
  | Toupcam_get_Option toupcam_option
  | Toupcam_get_RawFormat
  | Toupcam_put_ExpoTime "32 word"
  | Toupcam_Trigger int
  | Toupcam_put_Roi int int int int
  | Toupcam_ST4PlusGuide guide_direction "32 word"
  | Toupcam_PullImageV2 int
  | Toupcam_PullStillImageV2 int

datatype effect =
  Sdk sdk_call
  | IEAddTimer int timer_callback
  | IERmTimer int
  | Usleep int
  | GuideComplete guide_axis
  | ExposureComplete
  | Streamer_newFrame int
  | Malloc int
  | Free

text \<open>
  \<^verbatim>\<open>PrimaryCCD\<close> (class \<^verbatim>\<open>INDI::CCDChip\<close> of the base library): the fields the driver
  reads and writes through its accessors. \<open>ImageExposureState\<close> is the state of the
  exposure property, which \<^verbatim>\<open>setExposureFailed()\<close> sets to alert.
\<close>

record ccd_chip =
  XRes :: int
  YRes :: int
  SubX :: int
  SubY :: int
  SubW :: int
  SubH :: int
  BinX :: int
  BinY :: int
  BPP :: int
  NAxis :: int
  FrameBufferSize :: int
  FrameBuffer :: "byte list"
  ExposureDuration :: real
  ExposureLeft :: real
  ImageExposureState :: IPState

text \<open>\<^verbatim>\<open>Streamer\<close> (class \<^verbatim>\<open>INDI::StreamManager\<close> of the base library).\<close>

record stream_manager =
  isStreaming :: bool
  isBusy :: bool
  streamPixelFormat :: "INDI_PIXEL_FORMAT \<times> int"
  streamSize :: "int \<times> int"

record toupcam =
  PrimaryCCD :: ccd_chip
  Streamer :: stream_manager
  InExposure :: bool
  m_SendImage :: bool
  ExposureRequest :: real
  ExposureEnd :: timeval
  POLLMS :: "32 word"
  currentVideoFormat :: video_format
  m_Channels :: int
  m_BitsPerPixel :: int
  m_RawBitsPerPixel :: int
  m_MaxBitDepth :: int
  m_RAWFormatSupport :: bool
  m_CameraPixelFormat :: INDI_PIXEL_FORMAT
  FLAG_MONO :: bool
  HAS_BAYER :: bool
  BayerPattern :: string
  VideoFormatSP_s :: IPState
  NStimerID :: int
  WEtimerID :: int
  NSDir :: guide_direction
  WEDir :: guide_direction
  NSPulseEnd :: timeval
  WEPulseEnd :: timeval
  trace :: "effect list"

definition emit :: "effect \<Rightarrow> toupcam \<Rightarrow> toupcam" where
  "emit e s = s\<lparr>trace := trace s @ [e]\<rparr>"

text \<open>The macro \<^verbatim>\<open>timeradd\<close> of \<^verbatim>\<open>sys/time.h\<close>.\<close>

definition timeradd :: "timeval \<Rightarrow> timeval \<Rightarrow> timeval" where
  "timeradd a b =
     (let sec = fst a + fst b; usec = snd a + snd b
      in if usec \<ge> 1000000 then (sec + 1, usec - 1000000) else (sec, usec))"

section \<open>Capture controller\<close>

text \<open>
  \<^verbatim>\<open>TOUPCAM::StartExposure(float duration)\<close>. The conversion
  \<^verbatim>\<open>static_cast<uint32_t>(duration * 1000000.0f)\<close> is floating point; its result is the
  argument \<open>uSecs\<close>. \<open>current_time\<close> is what \<^verbatim>\<open>gettimeofday\<close> returns.
\<close>

definition StartExposure ::
  "real \<Rightarrow> 32 word \<Rightarrow> timeval \<Rightarrow> (sdk_call \<Rightarrow> hresult) \<Rightarrow> toupcam \<Rightarrow> bool \<times> toupcam" where
  "StartExposure duration uSecs current_time hw s0 =
     (let s1 = s0\<lparr>PrimaryCCD := (PrimaryCCD s0)\<lparr>ExposureDuration := duration\<rparr>,
                   ExposureRequest := duration\<rparr>;
          s2 = emit (Sdk (Toupcam_put_ExpoTime uSecs)) s1
      in if hw (Toupcam_put_ExpoTime uSecs) < 0 then (False, s2)
      else
        let s3 = emit (Sdk (Toupcam_put_Option TOUPCAM_OPTION_TRIGGER (Val 1))) s2
        in if hw (Toupcam_put_Option TOUPCAM_OPTION_TRIGGER (Val 1)) < 0 then (False, s3)
        else
          let s4 = emit (Sdk (Toupcam_Trigger 1)) s3
          in if hw (Toupcam_Trigger 1) < 0 then (False, s4)
          else
            let exposure_time = (uint (uSecs div 1000000), uint (uSecs mod 1000000));
                s5 = s4\<lparr>ExposureEnd := timeradd current_time exposure_time,
                         InExposure := True\<rparr>;
                timeMS0 = sint (uSecs div 1000 - 50);
                timeMS = (if timeMS0 < 0 then timeMS0 + 50 else timeMS0)
            in if (word_of_int timeMS :: 32 word) < POLLMS s5
               then (True, emit (IEAddTimer timeMS sendImageCB) s5)
               else (True, s5))"

text \<open>\<^verbatim>\<open>TOUPCAM::sendImageCallBack()\<close>, the callback of the wake-up timer.\<close>

definition sendImageCallBack :: "toupcam \<Rightarrow> toupcam" where
  "sendImageCallBack s = s\<lparr>InExposure := False, m_SendImage := True\<rparr>"


section \<open>Frame delivery\<close>

datatype event =
  TOUPCAM_EVENT_EXPOSURE | TOUPCAM_EVENT_TEMPTINT | TOUPCAM_EVENT_IMAGE
  | TOUPCAM_EVENT_STILLIMAGE | TOUPCAM_EVENT_WBGAIN | TOUPCAM_EVENT_TRIGGERFAIL
  | TOUPCAM_EVENT_BLACK | TOUPCAM_EVENT_FFC | TOUPCAM_EVENT_DFC | TOUPCAM_EVENT_ERROR
  | TOUPCAM_EVENT_DISCONNECTED | TOUPCAM_EVENT_FACTORY | TOUPCAM_EVENT_OTHER

text \<open>
  A successful pull writes the image \<open>data\<close> of the SDK at the start of the buffer it is
  given. \<open>None\<close>: the image is longer than the buffer and the SDK writes past its end.
\<close>

definition pull_into :: "byte list \<Rightarrow> byte list \<Rightarrow> byte list option" where
  "pull_into data buf =
     (if length data \<le> length buf then Some (data @ drop (length data) buf) else None)"

text \<open>
  The loop of \<^verbatim>\<open>eventPullCallBack\<close> that splits packed RGB into three planes:
  \<^verbatim>\<open>for (int i = 0; i <= size; i += 3) { *subR++ = buffer[i]; *subG++ = buffer[i + 1];
  *subB++ = buffer[i + 2]; }\<close>.
  The pointers \<open>subR\<close>, \<open>subG\<close>, \<open>subB\<close> are offsets into the frame buffer \<open>img\<close>;
  \<open>sz\<close> and \<open>img\<close> are the variables \<^verbatim>\<open>size\<close> and \<^verbatim>\<open>image\<close> of the source.
  \<open>None\<close>: a read or a write outside its buffer (undefined behaviour in C++).
\<close>

function deinterleave ::
  "int \<Rightarrow> int \<Rightarrow> nat \<Rightarrow> nat \<Rightarrow> nat \<Rightarrow> byte list \<Rightarrow> byte list \<Rightarrow> byte list option" where
  "deinterleave i sz subR subG subB buffer img =
     (if i \<le> sz then
        (if i < 0 \<or> length buffer \<le> nat i + 2
            \<or> length img \<le> subR \<or> length img \<le> subG \<or> length img \<le> subB
         then None
         else deinterleave (i + 3) sz (subR + 1) (subG + 1) (subB + 1) buffer
                (img[subR := buffer ! nat i, subG := buffer ! nat (i + 1),
                       subB := buffer ! nat (i + 2)]))
      else Some img)"
  by pat_completeness auto
termination
  by (relation "measure (\<lambda>(i, sz, subR, subG, subB, buffer, img). nat (sz + 1 - i))") auto

definition setExposureFailed :: "ccd_chip \<Rightarrow> ccd_chip" where
  "setExposureFailed c = c\<lparr>ImageExposureState := IPS_ALERT\<rparr>"

text \<open>
  The branch of \<^verbatim>\<open>eventPullCallBack\<close> for a single exposure in RGB: the pulled
  \<open>buffer\<close> is the temporary one, the frame buffer receives the three planes.
  \<open>None\<close>: division by a binning factor of zero, or the loop leaves a buffer.
  \<open>rgb_width\<close> and \<open>rgb_height\<close> are the \<^verbatim>\<open>uint32_t width\<close> and \<^verbatim>\<open>height\<close> of the source.
\<close>

definition rgb_width :: "ccd_chip \<Rightarrow> 32 word" where
  "rgb_width c = word_of_int (SubW c sdiv BinX c * (BPP c sdiv 8))"

definition rgb_height :: "ccd_chip \<Rightarrow> 32 word" where
  "rgb_height c = word_of_int (SubH c sdiv BinY c * (BPP c sdiv 8))"

text \<open>The size of one colour plane: the offset \<^verbatim>\<open>width * height\<close> of the green plane.\<close>

definition rgb_plane :: "ccd_chip \<Rightarrow> nat" where
  "rgb_plane c = unat (rgb_width c * rgb_height c)"

definition deliver_rgb :: "byte list \<Rightarrow> toupcam \<Rightarrow> toupcam option" where
  "deliver_rgb buffer s =
     (let c = PrimaryCCD s
      in if BinX c = 0 \<or> BinY c = 0 then None
         else
           let width = rgb_width c;
               height = rgb_height c;
               subR = 0;
               subG = unat (width * height);
               subB = unat (width * height * 2);
               sz = sint (width * height * 3 - 3)
           in case deinterleave 0 sz subR subG subB buffer (FrameBuffer c) of
                None \<Rightarrow> None
              | Some img \<Rightarrow> Some (emit Free (s\<lparr>PrimaryCCD := c\<lparr>FrameBuffer := img\<rparr>\<rparr>)))"

text \<open>
  \<^verbatim>\<open>TOUPCAM::eventPullCallBack(unsigned event)\<close>. \<open>rc\<close> and \<open>data\<close> are what the SDK
  answers to the pull of this event: the result code and, when it is not negative, the
  image bytes. \<open>None\<close>: undefined behaviour (see above), or \<^verbatim>\<open>malloc\<close> of a negative size.
\<close>

definition image_event_streaming :: "hresult \<Rightarrow> byte list \<Rightarrow> toupcam \<Rightarrow> toupcam option" where
  "image_event_streaming rc data s =
     (let s1 = emit (Sdk (Toupcam_PullImageV2 (m_BitsPerPixel s * m_Channels s))) s
      in if rc \<ge> 0 then
           (case pull_into data (FrameBuffer (PrimaryCCD s1)) of
              None \<Rightarrow> None
            | Some fb \<Rightarrow>
                Some (emit (Streamer_newFrame (FrameBufferSize (PrimaryCCD s1)))
                        (s1\<lparr>PrimaryCCD := (PrimaryCCD s1)\<lparr>FrameBuffer := fb\<rparr>\<rparr>)))
         else Some s1)"

definition image_event_single :: "hresult \<Rightarrow> byte list \<Rightarrow> toupcam \<Rightarrow> toupcam option" where
  "image_event_single rc data s =
     (let tmp = (m_SendImage s \<and> currentVideoFormat s = TC_VIDEO_RGB);
          nbytes = XRes (PrimaryCCD s) * YRes (PrimaryCCD s) * 3
      in if tmp \<and> nbytes < 0 then None
         else
           let s1 = (if tmp then emit (Malloc nbytes) s else s);
               buffer0 = (if tmp then replicate (nat nbytes) 0 else FrameBuffer (PrimaryCCD s));
               s2 = emit (Sdk (Toupcam_PullImageV2 (m_BitsPerPixel s * m_Channels s))) s1
           in if rc < 0 then
                (let s3 = s2\<lparr>PrimaryCCD := setExposureFailed (PrimaryCCD s2)\<rparr>
                 in Some (if m_SendImage s3 \<and> currentVideoFormat s3 = TC_VIDEO_RGB
                          then emit Free s3 else s3))
              else
                (case pull_into data buffer0 of
                   None \<Rightarrow> None
                 | Some buffer \<Rightarrow>
                     let s3 = (if tmp then s2
                               else s2\<lparr>PrimaryCCD := (PrimaryCCD s2)\<lparr>FrameBuffer := buffer\<rparr>\<rparr>)
                     in if m_SendImage s3 then
                          (case (if currentVideoFormat s3 = TC_VIDEO_RGB
                                 then deliver_rgb buffer s3 else Some s3) of
                             None \<Rightarrow> None
                           | Some s4 \<Rightarrow> Some ((emit ExposureComplete s4)\<lparr>m_SendImage := False\<rparr>))
                        else Some s3))"

definition still_image_event :: "hresult \<Rightarrow> byte list \<Rightarrow> toupcam \<Rightarrow> toupcam option" where
  "still_image_event rc data s =
     (let s1 = emit (Sdk (Toupcam_PullStillImageV2 24)) s
      in if rc < 0 then Some (s1\<lparr>PrimaryCCD := setExposureFailed (PrimaryCCD s1)\<rparr>)
         else
           (case pull_into data (FrameBuffer (PrimaryCCD s1)) of
              None \<Rightarrow> None
            | Some fb \<Rightarrow>
                Some (emit ExposureComplete
                        (s1\<lparr>PrimaryCCD := (PrimaryCCD s1)\<lparr>FrameBuffer := fb, ExposureLeft := 0\<rparr>,
                            InExposure := False\<rparr>))))"

definition eventPullCallBack :: "event \<Rightarrow> hresult \<Rightarrow> byte list \<Rightarrow> toupcam \<Rightarrow> toupcam option" where
  "eventPullCallBack ev rc data s =
     (case ev of
        TOUPCAM_EVENT_IMAGE \<Rightarrow>
          (if isStreaming (Streamer s) then image_event_streaming rc data s
           else image_event_single rc data s)
      | TOUPCAM_EVENT_STILLIMAGE \<Rightarrow> still_image_event rc data s
      | _ \<Rightarrow> Some s)"

section \<open>Mode and format manager\<close>

text \<open>
  \<^verbatim>\<open>CCDChip::setFrameBufferSize(uint32_t nbuf)\<close> of the base library: records the size
  and reallocates the frame. The argument is converted to \<^verbatim>\<open>uint32_t\<close>; bytes that
  \<^verbatim>\<open>realloc\<close> adds are indeterminate and shown as zero.
\<close>

definition setFrameBufferSize :: "int \<Rightarrow> ccd_chip \<Rightarrow> ccd_chip" where
  "setFrameBufferSize nbuf c =
     (let n = nbuf mod 2 ^ 32
      in c\<lparr>FrameBufferSize := n,
           FrameBuffer := take (nat n) (FrameBuffer c)
                          @ replicate (nat n - length (FrameBuffer c)) 0\<rparr>)"

text \<open>\<^verbatim>\<open>TOUPCAM::allocateFrameBuffer()\<close>.\<close>

definition allocateFrameBuffer :: "toupcam \<Rightarrow> toupcam" where
  "allocateFrameBuffer s =
     (let c = PrimaryCCD s;
          s1 = (case currentVideoFormat s of
                  TC_VIDEO_MONO_8 \<Rightarrow>
                    s\<lparr>PrimaryCCD := (setFrameBufferSize (XRes c * YRes c) c)\<lparr>BPP := 8, NAxis := 2\<rparr>,
                      Streamer := (Streamer s)\<lparr>streamPixelFormat := (INDI_MONO, 8)\<rparr>\<rparr>
                | TC_VIDEO_MONO_16 \<Rightarrow>
                    s\<lparr>PrimaryCCD := (setFrameBufferSize (XRes c * YRes c * 2) c)\<lparr>BPP := 8, NAxis := 2\<rparr>,
                      Streamer := (Streamer s)\<lparr>streamPixelFormat := (INDI_MONO, 16)\<rparr>\<rparr>
                | TC_VIDEO_RGB \<Rightarrow>
                    s\<lparr>PrimaryCCD := (setFrameBufferSize (XRes c * YRes c * 3) c)\<lparr>BPP := 8, NAxis := 3\<rparr>,
                      Streamer := (Streamer s)\<lparr>streamPixelFormat := (INDI_RGB, 8)\<rparr>\<rparr>
                | TC_VIDEO_RAW \<Rightarrow>
                    s\<lparr>PrimaryCCD :=
                        (setFrameBufferSize (XRes c * YRes c * m_BitsPerPixel s sdiv 8) c)
                          \<lparr>BPP := m_BitsPerPixel s, NAxis := 2\<rparr>,
                      Streamer := (Streamer s)
                          \<lparr>streamPixelFormat := (m_CameraPixelFormat s, m_BitsPerPixel s)\<rparr>\<rparr>)
      in s1\<lparr>Streamer := (Streamer s1)\<lparr>streamSize := (XRes c, YRes c)\<rparr>\<rparr>)"

text \<open>\<^verbatim>\<open>v -= (v % 2)\<close>, with the remainder of C++.\<close>

definition make_even :: "int \<Rightarrow> int" where
  "make_even v = v - (v smod 2)"

text \<open>
  \<^verbatim>\<open>TOUPCAM::UpdateCCDFrame(int x, int y, int w, int h)\<close>. \<open>None\<close>: division by a
  binning factor of zero.
\<close>

definition UpdateCCDFrame ::
  "int \<Rightarrow> int \<Rightarrow> int \<Rightarrow> int \<Rightarrow> (sdk_call \<Rightarrow> hresult) \<Rightarrow> toupcam \<Rightarrow> (bool \<times> toupcam) option" where
  "UpdateCCDFrame x0 y0 w0 h0 hw s =
     (let x = make_even x0;
          y = make_even y0;
          w = make_even w0;
          h = make_even h0
      in if w > XRes (PrimaryCCD s) then Some (False, s)
         else if h > YRes (PrimaryCCD s) then Some (False, s)
         else
           let s1 = emit (Sdk (Toupcam_put_Roi x y w h)) s
           in if hw (Toupcam_put_Roi x y w h) < 0 then Some (False, s1)
              else
                let c = (PrimaryCCD s1)\<lparr>SubX := x, SubY := y, SubW := w, SubH := h\<rparr>;
                    nbuf = (w * h * BPP c sdiv 8) * m_Channels s1;
                    c' = setFrameBufferSize nbuf c
                in if BinX c' = 0 \<or> BinY c' = 0 then None
                   else Some (True,
                          s1\<lparr>PrimaryCCD := c',
                             Streamer := (Streamer s1)
                               \<lparr>streamSize := (w sdiv BinX c', h sdiv BinY c')\<rparr>\<rparr>))"

text \<open>
  \<^verbatim>\<open>CCDChip::setBin(uint8_t hor, uint8_t ver)\<close> of the base library (the declaration is
  not among the sources): the arguments are converted to \<^verbatim>\<open>uint8_t\<close>, so the chip
  records them \<open>mod 256\<close>.
\<close>

definition setBin :: "int \<Rightarrow> int \<Rightarrow> ccd_chip \<Rightarrow> ccd_chip" where
  "setBin hor ver c = c\<lparr>BinX := hor mod 256, BinY := ver mod 256\<rparr>"

text \<open>\<^verbatim>\<open>TOUPCAM::UpdateCCDBin(int binx, int biny)\<close>.\<close>

definition UpdateCCDBin ::
  "int \<Rightarrow> int \<Rightarrow> (sdk_call \<Rightarrow> hresult) \<Rightarrow> toupcam \<Rightarrow> (bool \<times> toupcam) option" where
  "UpdateCCDBin binx biny hw s =
     (let s1 = emit (Sdk (Toupcam_put_Option TOUPCAM_OPTION_BINNING (Val binx))) s
      in if hw (Toupcam_put_Option TOUPCAM_OPTION_BINNING (Val binx)) < 0 then Some (False, s1)
         else
           let s2 = s1\<lparr>PrimaryCCD := setBin binx binx (PrimaryCCD s1)\<rparr>
           in UpdateCCDFrame (SubX (PrimaryCCD s2)) (SubY (PrimaryCCD s2))
                (SubW (PrimaryCCD s2)) (SubH (PrimaryCCD s2)) hw s2)"

text \<open>The macro \<^verbatim>\<open>MAKEFOURCC\<close> and the four Bayer codes.\<close>

definition MAKEFOURCC :: "char \<Rightarrow> char \<Rightarrow> char \<Rightarrow> char \<Rightarrow> 32 word" where
  "MAKEFOURCC ch0 ch1 ch2 ch3 =
     of_char ch0 OR push_bit 8 (of_char ch1) OR push_bit 16 (of_char ch2)
       OR push_bit 24 (of_char ch3)"

definition FMT_GBRG :: "32 word" where
  "FMT_GBRG = MAKEFOURCC (CHR ''G'') (CHR ''B'') (CHR ''R'') (CHR ''G'')"

definition FMT_RGGB :: "32 word" where
  "FMT_RGGB = MAKEFOURCC (CHR ''R'') (CHR ''G'') (CHR ''G'') (CHR ''B'')"

definition FMT_BGGR :: "32 word" where
  "FMT_BGGR = MAKEFOURCC (CHR ''B'') (CHR ''G'') (CHR ''G'') (CHR ''R'')"

definition FMT_GRBG :: "32 word" where
  "FMT_GRBG = MAKEFOURCC (CHR ''G'') (CHR ''R'') (CHR ''B'') (CHR ''G'')"

text \<open>
  \<^verbatim>\<open>TOUPCAM::getBayerString()\<close>. \<open>raw\<close> is what \<^verbatim>\<open>Toupcam_get_RawFormat\<close> returns: the
  FourCC and the bit depth.
\<close>

definition getBayerString :: "32 word \<times> int \<Rightarrow> toupcam \<Rightarrow> string \<times> toupcam" where
  "getBayerString raw s0 =
     (let nFourCC = fst raw; nBitDepth = snd raw;
          s = (emit (Sdk Toupcam_get_RawFormat) s0)\<lparr>m_RawBitsPerPixel := nBitDepth\<rparr>
      in if nFourCC = FMT_GBRG then (''GBRG'', s\<lparr>m_CameraPixelFormat := INDI_BAYER_GBRG\<rparr>)
         else if nFourCC = FMT_RGGB then (''RGGB'', s\<lparr>m_CameraPixelFormat := INDI_BAYER_RGGB\<rparr>)
         else if nFourCC = FMT_BGGR then (''BGGR'', s\<lparr>m_CameraPixelFormat := INDI_BAYER_BGGR\<rparr>)
         else if nFourCC = FMT_GRBG then (''GRBG'', s\<lparr>m_CameraPixelFormat := INDI_BAYER_GRBG\<rparr>)
         else (''RGGB'', s\<lparr>m_CameraPixelFormat := INDI_BAYER_RGGB\<rparr>))"

text \<open>
  The video format branch of \<^verbatim>\<open>TOUPCAM::ISNewSwitch\<close>. \<open>targetFormat\<close> is the name of
  the switch the client turned on; the loop over \<^verbatim>\<open>VideoFormatS\<close> finds its index.
\<close>

definition VideoFormatS :: "(video_format \<times> string) list" where
  "VideoFormatS =
     [(TC_VIDEO_MONO_8, ''TC_VIDEO_MONO_8''), (TC_VIDEO_MONO_16, ''TC_VIDEO_MONO_16''),
      (TC_VIDEO_RGB, ''TC_VIDEO_RGB''), (TC_VIDEO_RAW, ''TC_VIDEO_RAW'')]"

fun find_format :: "string \<Rightarrow> (video_format \<times> string) list \<Rightarrow> video_format option" where
  "find_format targetFormat [] = None"
| "find_format targetFormat ((i, name) # rest) =
     (if targetFormat = name then Some i else find_format targetFormat rest)"

text \<open>A failed step: alert, and capture is restarted.\<close>

definition format_failed :: "toupcam \<Rightarrow> toupcam" where
  "format_failed s = emit (Sdk Toupcam_StartPullModeWithCallback) (s\<lparr>VideoFormatSP_s := IPS_ALERT\<rparr>)"

text \<open>What follows the option writes once all of them are accepted.\<close>

definition apply_format :: "video_format \<Rightarrow> 32 word \<times> int \<Rightarrow> toupcam \<Rightarrow> toupcam" where
  "apply_format targetIndex raw s0 =
     (let s1 = s0\<lparr>currentVideoFormat := targetIndex\<rparr>;
          s2 = (case targetIndex of
                  TC_VIDEO_MONO_8 \<Rightarrow>
                    s1\<lparr>m_Channels := 1, m_BitsPerPixel := 8,
                       HAS_BAYER := (if m_RAWFormatSupport s1 then False else HAS_BAYER s1)\<rparr>
                | TC_VIDEO_MONO_16 \<Rightarrow>
                    s1\<lparr>m_Channels := 1, m_BitsPerPixel := 16,
                       HAS_BAYER := (if m_RAWFormatSupport s1 then False else HAS_BAYER s1)\<rparr>
                | TC_VIDEO_RGB \<Rightarrow>
                    s1\<lparr>m_Channels := 3, m_BitsPerPixel := 8,
                       HAS_BAYER := (if m_RAWFormatSupport s1 then False else HAS_BAYER s1)\<rparr>
                | TC_VIDEO_RAW \<Rightarrow>
                    (let b = getBayerString raw (s1\<lparr>m_Channels := 1, HAS_BAYER := True\<rparr>)
                     in (snd b)\<lparr>BayerPattern := fst b,
                                m_BitsPerPixel := m_RawBitsPerPixel (snd b)\<rparr>));
          s3 = emit (Sdk Toupcam_get_RawFormat) s2;
          s4 = allocateFrameBuffer s3
      in emit (Sdk Toupcam_StartPullModeWithCallback) (s4\<lparr>VideoFormatSP_s := IPS_OK\<rparr>))"

definition ISNewSwitch_VideoFormat ::
  "string \<Rightarrow> 32 word \<times> int \<Rightarrow> (sdk_call \<Rightarrow> hresult) \<Rightarrow> toupcam \<Rightarrow> toupcam" where
  "ISNewSwitch_VideoFormat targetFormat raw hw s =
     (if isBusy (Streamer s) then s\<lparr>VideoFormatSP_s := IPS_ALERT\<rparr>
      else
        case find_format targetFormat VideoFormatS of
          None \<Rightarrow> s\<lparr>VideoFormatSP_s := IPS_ALERT\<rparr>
        | Some targetIndex \<Rightarrow>
            if m_MaxBitDepth s = 8 \<and> targetIndex = TC_VIDEO_MONO_16
            then s\<lparr>VideoFormatSP_s := IPS_ALERT\<rparr>
            else if targetIndex = TC_VIDEO_RAW \<and> \<not> m_RAWFormatSupport s
            then s\<lparr>VideoFormatSP_s := IPS_ALERT\<rparr>
            else if targetIndex \<noteq> TC_VIDEO_RAW \<and> targetIndex = TC_VIDEO_RGB \<and> FLAG_MONO s
            then s\<lparr>VideoFormatSP_s := IPS_ALERT\<rparr>
            else
              let s1 = emit (Sdk Toupcam_Stop) s;
                  s2 = emit (Sdk (Toupcam_put_Option TOUPCAM_OPTION_RAW (Val 1))) s1
              in if hw (Toupcam_put_Option TOUPCAM_OPTION_RAW (Val 1)) < 0 then format_failed s2
                 else
                   let s3 = emit (Sdk (Toupcam_put_Option TOUPCAM_OPTION_BITDEPTH (Val 1))) s2
                   in if hw (Toupcam_put_Option TOUPCAM_OPTION_BITDEPTH (Val 1)) < 0
                      then format_failed s3
                      else
                        let s4 = emit (Sdk (Toupcam_put_Option TOUPCAM_OPTION_PIXEL_FORMAT
                                              TOUPCAM_PIXELFORMAT_RAW12)) s3
                        in if hw (Toupcam_put_Option TOUPCAM_OPTION_PIXEL_FORMAT
                                    TOUPCAM_PIXELFORMAT_RAW12) < 0
                           then format_failed s4
                           else
                             let mode = (if targetIndex = TC_VIDEO_MONO_8 then 3
                                         else if targetIndex = TC_VIDEO_MONO_16 then 4 else 0);
                                 s5 = (if targetIndex \<noteq> TC_VIDEO_RAW
                                       then emit (Sdk (Toupcam_put_Option TOUPCAM_OPTION_RGB (Val mode))) s4
                                       else s4)
                             in if targetIndex \<noteq> TC_VIDEO_RAW
                                   \<and> hw (Toupcam_put_Option TOUPCAM_OPTION_RGB (Val mode)) < 0
                                then format_failed s5
                                else apply_format targetIndex raw
                                       (emit (Sdk (Toupcam_get_Option TOUPCAM_OPTION_RGB)) s5))"

section \<open>Guide pulse sequencer\<close>

text \<open>\<^verbatim>\<open>TOUPCAM::TimerNS()\<close> and \<^verbatim>\<open>TOUPCAM::stopTimerNS()\<close>.\<close>

definition TimerNS :: "toupcam \<Rightarrow> toupcam" where
  "TimerNS s = emit (GuideComplete AXIS_DE) (s\<lparr>NStimerID := - 1\<rparr>)"

definition stopTimerNS :: "toupcam \<Rightarrow> toupcam" where
  "stopTimerNS s =
     (if NStimerID s \<noteq> - 1
      then (emit (IERmTimer (NStimerID s)) (emit (GuideComplete AXIS_DE) s))\<lparr>NStimerID := - 1\<rparr>
      else s)"

text \<open>
  \<^verbatim>\<open>TOUPCAM::guidePulseNS(uint32_t ms, eGUIDEDIRECTION dir, const char *dirName)\<close>.
  \<open>tid\<close> is the identifier \<^verbatim>\<open>IEAddTimer\<close> returns; \<open>dirName\<close> is only logged.
  \<^verbatim>\<open>int uSecs = ms * 1000\<close> is a product of \<^verbatim>\<open>uint32_t\<close> read back as \<^verbatim>\<open>int\<close>.
  The event loop of the base library declares \<^verbatim>\<open>IEAddTimer(int millisecs, ...)\<close> (the
  declaration is not among the sources), so the \<^verbatim>\<open>uint32_t ms\<close> the driver passes is
  converted to \<^verbatim>\<open>int\<close>: \<open>sint ms\<close>.
\<close>

definition guidePulseNS ::
  "32 word \<Rightarrow> guide_direction \<Rightarrow> timeval \<Rightarrow> int \<Rightarrow> (sdk_call \<Rightarrow> hresult) \<Rightarrow> toupcam
     \<Rightarrow> IPState \<times> toupcam" where
  "guidePulseNS ms dir current_time tid hw s0 =
     (let s1 = (stopTimerNS s0)\<lparr>NSDir := dir\<rparr>;
          uSecs = sint (ms * 1000);
          s2 = emit (Sdk (Toupcam_ST4PlusGuide dir ms)) s1
      in if hw (Toupcam_ST4PlusGuide dir ms) < 0 then (IPS_ALERT, s2)
         else if ms < 50 then (IPS_OK, emit (Usleep uSecs) s2)
         else
           let duration = (uSecs sdiv 1000000, uSecs smod 1000000);
               s3 = s2\<lparr>NSPulseEnd := timeradd current_time duration\<rparr>
           in (IPS_BUSY, (emit (IEAddTimer (sint ms) TimerHelperNS) s3)\<lparr>NStimerID := tid\<rparr>))"

text \<open>\<^verbatim>\<open>TOUPCAM::TimerWE()\<close>, \<^verbatim>\<open>TOUPCAM::stopTimerWE()\<close> and \<^verbatim>\<open>TOUPCAM::guidePulseWE\<close>.\<close>

definition TimerWE :: "toupcam \<Rightarrow> toupcam" where
  "TimerWE s = emit (GuideComplete AXIS_RA) (s\<lparr>WEtimerID := - 1\<rparr>)"

definition stopTimerWE :: "toupcam \<Rightarrow> toupcam" where
  "stopTimerWE s =
     (if WEtimerID s \<noteq> - 1
      then (emit (IERmTimer (WEtimerID s)) (emit (GuideComplete AXIS_RA) s))\<lparr>WEtimerID := - 1\<rparr>
      else s)"

definition guidePulseWE ::
  "32 word \<Rightarrow> guide_direction \<Rightarrow> timeval \<Rightarrow> int \<Rightarrow> (sdk_call \<Rightarrow> hresult) \<Rightarrow> toupcam
     \<Rightarrow> IPState \<times> toupcam" where
  "guidePulseWE ms dir current_time tid hw s0 =
     (let s1 = (stopTimerWE s0)\<lparr>WEDir := dir\<rparr>;
          uSecs = sint (ms * 1000);
          s2 = emit (Sdk (Toupcam_ST4PlusGuide dir ms)) s1
      in if hw (Toupcam_ST4PlusGuide dir ms) < 0 then (IPS_ALERT, s2)
         else if ms < 50 then (IPS_OK, emit (Usleep uSecs) s2)
         else
           let duration = (uSecs sdiv 1000000, uSecs smod 1000000);
               s3 = s2\<lparr>WEPulseEnd := timeradd current_time duration\<rparr>
           in (IPS_BUSY, (emit (IEAddTimer (sint ms) TimerHelperWE) s3)\<lparr>WEtimerID := tid\<rparr>))"

text \<open>The event loop calls the callback an expired timer was armed with.\<close>

fun fire :: "timer_callback \<Rightarrow> toupcam \<Rightarrow> toupcam" where
  "fire sendImageCB s = sendImageCallBack s"
| "fire TimerHelperNS s = TimerNS s"
| "fire TimerHelperWE s = TimerWE s"

section \<open>Example cameras\<close>

text \<open>
  A connected colour camera with a sensor of 4 by 2 pixels in RGB mode, idle, and an SDK
  that accepts every call.
\<close>

definition cam0 :: toupcam where
  "cam0 =
     \<lparr>PrimaryCCD =
        \<lparr>XRes = 4, YRes = 2, SubX = 0, SubY = 0, SubW = 4, SubH = 2, BinX = 1, BinY = 1,
         BPP = 8, NAxis = 3, FrameBufferSize = 24, FrameBuffer = replicate 24 0,
         ExposureDuration = 0, ExposureLeft = 0, ImageExposureState = IPS_IDLE\<rparr>,
      Streamer =
        \<lparr>isStreaming = False, isBusy = False, streamPixelFormat = (INDI_RGB, 8),
         streamSize = (4, 2)\<rparr>,
      InExposure = False, m_SendImage = False, ExposureRequest = 0, ExposureEnd = (0, 0),
      POLLMS = 1000, currentVideoFormat = TC_VIDEO_RGB, m_Channels = 3, m_BitsPerPixel = 8,
      m_RawBitsPerPixel = 12, m_MaxBitDepth = 16, m_RAWFormatSupport = True,
      m_CameraPixelFormat = INDI_RGB, FLAG_MONO = False, HAS_BAYER = False,
      BayerPattern = ''RGGB'', VideoFormatSP_s = IPS_IDLE,
      NStimerID = - 1, WEtimerID = - 1, NSDir = TOUPCAM_NORTH, WEDir = TOUPCAM_WEST,
      NSPulseEnd = (0, 0), WEPulseEnd = (0, 0), trace = []\<rparr>"

definition accept_all :: "sdk_call \<Rightarrow> hresult" where
  "accept_all call = 0"

text \<open>The same camera with a sensor of 1280 by 1024 pixels.\<close>

definition cam_1280 :: toupcam where
  "cam_1280 =
     cam0\<lparr>PrimaryCCD := (PrimaryCCD cam0)\<lparr>XRes := 1280, YRes := 1024, SubW := 1280, SubH := 1024\<rparr>\<rparr>"

text \<open>
  The camera \<open>cam0\<close> during an exposure of one second started at time 100 s, then after
  the wake-up timer of that exposure has fired, then after an abort that followed.
\<close>

definition cam_exposing :: toupcam where
  "cam_exposing = snd (StartExposure 1 1000000 (100, 0) accept_all cam0)"

definition cam_pending :: toupcam where
  "cam_pending = fire sendImageCB cam_exposing"




text \<open>The camera \<open>cam0\<close> after the client has switched the video format to Mono 16.\<close>

definition cam_mono16 :: toupcam where
  "cam_mono16 = ISNewSwitch_VideoFormat ''TC_VIDEO_MONO_16'' (FMT_RGGB, 12) accept_all cam0"

text \<open>The camera \<open>cam0\<close> while it streams video.\<close>

definition cam_streaming :: toupcam where
  "cam_streaming = cam0\<lparr>Streamer := (Streamer cam0)\<lparr>isStreaming := True, isBusy := True\<rparr>\<rparr>"

section \<open>Auxiliary facts\<close>

lemma image_event_not_pending:
  assumes "\<not> isStreaming (Streamer s)" and "\<not> m_SendImage s"
  shows "eventPullCallBack TOUPCAM_EVENT_IMAGE rc data s =
     (if rc < 0
      then Some ((emit (Sdk (Toupcam_PullImageV2 (m_BitsPerPixel s * m_Channels s))) s)
                   \<lparr>PrimaryCCD := setExposureFailed (PrimaryCCD s)\<rparr>)
      else (case pull_into data (FrameBuffer (PrimaryCCD s)) of
              None \<Rightarrow> None
            | Some fb \<Rightarrow>
                Some ((emit (Sdk (Toupcam_PullImageV2 (m_BitsPerPixel s * m_Channels s))) s)
                        \<lparr>PrimaryCCD := (PrimaryCCD s)\<lparr>FrameBuffer := fb\<rparr>\<rparr>)))"
  using assms
  by (simp add: eventPullCallBack_def image_event_single_def Let_def emit_def
      split: option.splits)


lemma cam_exposing_eval:
  "InExposure cam_exposing" "\<not> m_SendImage cam_exposing"
  "ExposureEnd cam_exposing = (101, 0)" "\<not> isStreaming (Streamer cam_exposing)"
  by (simp_all add: cam_exposing_def StartExposure_def Let_def emit_def accept_all_def
      cam0_def timeradd_def)

lemma cam_pending_eval:
  "\<not> isStreaming (Streamer cam_pending)" "m_SendImage cam_pending"
  "currentVideoFormat cam_pending = TC_VIDEO_RGB"
  "XRes (PrimaryCCD cam_pending) = 4" "YRes (PrimaryCCD cam_pending) = 2"
  "SubW (PrimaryCCD cam_pending) = 4" "SubH (PrimaryCCD cam_pending) = 2"
  "BinX (PrimaryCCD cam_pending) = 1" "BinY (PrimaryCCD cam_pending) = 1"
  "BPP (PrimaryCCD cam_pending) = 8"
  "FrameBuffer (PrimaryCCD cam_pending) = replicate 24 0"
  "m_BitsPerPixel cam_pending = 8" "m_Channels cam_pending = 3"
  by (simp_all add: cam_pending_def cam_exposing_def sendImageCallBack_def StartExposure_def
      Let_def emit_def accept_all_def cam0_def)

lemma unat_twice:
  fixes x :: "32 word"
  assumes "3 * unat x < 2 ^ 31"
  shows "unat (x * 2) = 2 * unat x"
proof -
  have "unat (x * 2) = unat x * unat (2 :: 32 word) mod 2 ^ LENGTH(32)"
    by (rule unat_word_ariths)
  also have "\<dots> = unat x * 2 mod 4294967296"
    by simp
  also have "\<dots> = unat x * 2"
    using assms by (intro mod_less) simp
  finally show ?thesis
    by (simp only: mult.commute)
qed

lemma sint_thrice_minus_3:
  fixes x :: "32 word"
  assumes "3 * unat x < 2 ^ 31"
  shows "sint (x * 3 - 3) = 3 * int (unat x) - 3"
proof -
  have "int (3 * unat x) < int (2 ^ 31)"
    using assms by (simp only: of_nat_less_iff)
  then have "3 * int (unat x) < 2 ^ 31"
    by simp
  then have bound: "3 * uint x < 2 ^ 31"
    by (simp only: uint_nat)
  have eq: "x * 3 - 3 = word_of_int (3 * uint x - 3)"
    by (simp add: wi_hom_syms)
  have "sint (word_of_int (3 * uint x - 3) :: 32 word)
          = signed_take_bit (LENGTH(32) - Suc 0) (3 * uint x - 3)"
    by (simp only: signed_of_int of_int_eq_id id_apply)
  also have "\<dots> = signed_take_bit 31 (3 * uint x - 3)"
    by simp
  also have "\<dots> = 3 * uint x - 3"
  proof (rule signed_take_bit_int_eq_self)
    have "0 \<le> uint x" by simp
    then show "- (2 ^ 31) \<le> 3 * uint x - 3" by simp
    show "3 * uint x - 3 < 2 ^ 31" using bound by simp
  qed
  finally have "sint (x * 3 - 3) = 3 * uint x - 3"
    by (simp only: eq)
  then show ?thesis
    by (simp only: uint_nat)
qed

lemma deinterleave_planes:
  fixes n :: nat
  assumes "0 \<le> i" and "nat i + 3 * n \<le> length buffer"
    and "r + n \<le> g" and "g + n \<le> b" and "b + n \<le> length img"
    and "sz = i + 3 * int n - 3"
  shows "\<exists>img'. deinterleave i sz r g b buffer img = Some img'
           \<and> length img' = length img
           \<and> (\<forall>k<n. img' ! (r + k) = buffer ! (nat i + 3 * k)
                    \<and> img' ! (g + k) = buffer ! (nat i + 3 * k + 1)
                    \<and> img' ! (b + k) = buffer ! (nat i + 3 * k + 2))
           \<and> (\<forall>j<length img. (j < r \<or> r + n \<le> j) \<and> (j < g \<or> g + n \<le> j) \<and> (j < b \<or> b + n \<le> j)
                    \<longrightarrow> img' ! j = img ! j)"
  using assms
proof (induction n arbitrary: i r g b img sz)
  case 0
  then show ?case by (subst deinterleave.simps) simp
next
  case (Suc n)
  let ?img1 = "img[r := buffer ! nat i, g := buffer ! nat (i + 1), b := buffer ! nat (i + 2)]"
  have step: "deinterleave i sz r g b buffer img
                = deinterleave (i + 3) sz (r + 1) (g + 1) (b + 1) buffer ?img1"
    using Suc.prems by (subst deinterleave.simps) simp
  have "\<exists>img'. deinterleave (i + 3) sz (r + 1) (g + 1) (b + 1) buffer ?img1 = Some img'
           \<and> length img' = length ?img1
           \<and> (\<forall>k<n. img' ! (r + 1 + k) = buffer ! (nat (i + 3) + 3 * k)
                    \<and> img' ! (g + 1 + k) = buffer ! (nat (i + 3) + 3 * k + 1)
                    \<and> img' ! (b + 1 + k) = buffer ! (nat (i + 3) + 3 * k + 2))
           \<and> (\<forall>j<length ?img1. (j < r + 1 \<or> r + 1 + n \<le> j) \<and> (j < g + 1 \<or> g + 1 + n \<le> j)
                      \<and> (j < b + 1 \<or> b + 1 + n \<le> j)
                    \<longrightarrow> img' ! j = ?img1 ! j)"
    using Suc.prems by (intro Suc.IH) auto
  then obtain img' where
    res: "deinterleave (i + 3) sz (r + 1) (g + 1) (b + 1) buffer ?img1 = Some img'"
    and len1: "length img' = length ?img1"
    and planes1: "\<forall>k<n. img' ! (r + 1 + k) = buffer ! (nat (i + 3) + 3 * k)
                    \<and> img' ! (g + 1 + k) = buffer ! (nat (i + 3) + 3 * k + 1)
                    \<and> img' ! (b + 1 + k) = buffer ! (nat (i + 3) + 3 * k + 2)"
    and rest1: "\<forall>j<length ?img1. (j < r + 1 \<or> r + 1 + n \<le> j) \<and> (j < g + 1 \<or> g + 1 + n \<le> j)
                      \<and> (j < b + 1 \<or> b + 1 + n \<le> j)
                    \<longrightarrow> img' ! j = ?img1 ! j"
    by (elim exE conjE)
  have len: "length img' = length img"
    using len1 by simp
  have planes: "img' ! (r + 1 + k) = buffer ! (nat (i + 3) + 3 * k)
                    \<and> img' ! (g + 1 + k) = buffer ! (nat (i + 3) + 3 * k + 1)
                    \<and> img' ! (b + 1 + k) = buffer ! (nat (i + 3) + 3 * k + 2)" if "k < n" for k
    using planes1 that by blast
  have rest: "img' ! j = ?img1 ! j"
    if "j < length img" "j < r + 1 \<or> r + 1 + n \<le> j" "j < g + 1 \<or> g + 1 + n \<le> j"
      "j < b + 1 \<or> b + 1 + n \<le> j" for j
  proof -
    have "j < length ?img1" using that(1) by simp
    with rest1 that show ?thesis by blast
  qed
  have i3: "nat (i + 3) = nat i + 3" "nat (i + 1) = nat i + 1" "nat (i + 2) = nat i + 2"
    using Suc.prems(1) by auto
  have first: "img' ! r = buffer ! nat i" "img' ! g = buffer ! (nat i + 1)"
    "img' ! b = buffer ! (nat i + 2)"
    using Suc.prems rest [of r] rest [of g] rest [of b] by (simp_all add: i3)
  have "img' ! (r + k) = buffer ! (nat i + 3 * k)
          \<and> img' ! (g + k) = buffer ! (nat i + 3 * k + 1)
          \<and> img' ! (b + k) = buffer ! (nat i + 3 * k + 2)" if "k < Suc n" for k
  proof (cases k)
    case 0
    then show ?thesis using first by simp
  next
    case (Suc k')
    then show ?thesis using planes [of k'] that by (simp add: i3 add.commute add.left_commute)
  qed
  moreover have "img' ! j = img ! j"
    if "j < length img" "(j < r \<or> r + Suc n \<le> j) \<and> (j < g \<or> g + Suc n \<le> j) \<and> (j < b \<or> b + Suc n \<le> j)"
    for j
    using that rest [of j] by auto
  ultimately show ?case using step res len by auto
qed

lemma deliver_rgb_planes:
  assumes "BinX (PrimaryCCD s) \<noteq> 0" and "BinY (PrimaryCCD s) \<noteq> 0"
    and "3 * rgb_plane (PrimaryCCD s) \<le> length buffer"
    and "3 * rgb_plane (PrimaryCCD s) \<le> length (FrameBuffer (PrimaryCCD s))"
    and "3 * rgb_plane (PrimaryCCD s) < 2 ^ 31"
  shows "\<exists>img'. deliver_rgb buffer s
             = Some (emit Free (s\<lparr>PrimaryCCD := (PrimaryCCD s)\<lparr>FrameBuffer := img'\<rparr>\<rparr>))
           \<and> length img' = length (FrameBuffer (PrimaryCCD s))
           \<and> (\<forall>i<rgb_plane (PrimaryCCD s).
                  img' ! i = buffer ! (3 * i)
                \<and> img' ! (rgb_plane (PrimaryCCD s) + i) = buffer ! (3 * i + 1)
                \<and> img' ! (2 * rgb_plane (PrimaryCCD s) + i) = buffer ! (3 * i + 2))"
proof -
  let ?c = "PrimaryCCD s"
  let ?wh = "rgb_width ?c * rgb_height ?c"
  let ?P = "rgb_plane ?c"
  have P: "unat ?wh = ?P"
    by (simp add: rgb_plane_def)
  have small: "3 * unat ?wh < 2 ^ 31"
    using assms(5) by (simp only: P)
  have subB: "unat (?wh * 2) = 2 * ?P"
    using unat_twice [OF small] by (simp only: P)
  have sz: "sint (?wh * 3 - 3) = 3 * int ?P - 3"
    using sint_thrice_minus_3 [OF small] by (simp only: P)
  have "\<exists>img'. deinterleave 0 (sint (?wh * 3 - 3)) 0 ?P (2 * ?P) buffer (FrameBuffer ?c) = Some img'
           \<and> length img' = length (FrameBuffer ?c)
           \<and> (\<forall>k<?P. img' ! (0 + k) = buffer ! (nat 0 + 3 * k)
                    \<and> img' ! (?P + k) = buffer ! (nat 0 + 3 * k + 1)
                    \<and> img' ! (2 * ?P + k) = buffer ! (nat 0 + 3 * k + 2))
           \<and> (\<forall>j<length (FrameBuffer ?c).
                  (j < 0 \<or> 0 + ?P \<le> j) \<and> (j < ?P \<or> ?P + ?P \<le> j) \<and> (j < 2 * ?P \<or> 2 * ?P + ?P \<le> j)
                    \<longrightarrow> img' ! j = FrameBuffer ?c ! j)"
    by (rule deinterleave_planes) (use assms(3,4) sz in simp_all)
  then obtain img' where
    run: "deinterleave 0 (sint (?wh * 3 - 3)) 0 ?P (2 * ?P) buffer (FrameBuffer ?c) = Some img'"
    and len: "length img' = length (FrameBuffer ?c)"
    and planes: "\<forall>k<?P. img' ! (0 + k) = buffer ! (nat 0 + 3 * k)
                    \<and> img' ! (?P + k) = buffer ! (nat 0 + 3 * k + 1)
                    \<and> img' ! (2 * ?P + k) = buffer ! (nat 0 + 3 * k + 2)"
    by (elim exE conjE)
  have unfolded: "deliver_rgb buffer s =
      (case deinterleave 0 (sint (?wh * 3 - 3)) 0 (unat ?wh) (unat (?wh * 2)) buffer (FrameBuffer ?c) of
         None \<Rightarrow> None
       | Some img \<Rightarrow> Some (emit Free (s\<lparr>PrimaryCCD := ?c\<lparr>FrameBuffer := img\<rparr>\<rparr>)))"
    using assms(1,2) by (simp add: deliver_rgb_def Let_def)
  have result: "deliver_rgb buffer s = Some (emit Free (s\<lparr>PrimaryCCD := ?c\<lparr>FrameBuffer := img'\<rparr>\<rparr>))"
    by (simp only: unfolded P subB run option.case)
  have planes': "\<forall>i<?P. img' ! i = buffer ! (3 * i)
                \<and> img' ! (?P + i) = buffer ! (3 * i + 1)
                \<and> img' ! (2 * ?P + i) = buffer ! (3 * i + 2)"
    using planes by simp
  show ?thesis
    using result len planes' by (intro exI [of _ img'] conjI)
qed

lemma make_even_props:
  "even (make_even v)"
  "0 \<le> v \<Longrightarrow> make_even v \<le> v \<and> v < make_even v + 2"
  "v < 0 \<Longrightarrow> v \<le> make_even v \<and> make_even v < v + 2"
  unfolding make_even_def smod_int_alt_def
  by (auto simp add: sgn_if abs_if)


lemma make_even_numerals:
  "make_even 5 = 4" "make_even 7 = 6" "make_even 101 = 100" "make_even 51 = 50"
  "make_even (- 5) = - 4"
  by (simp_all add: make_even_def smod_int_alt_def)

lemma sint_ms_short:
  fixes ms :: "32 word"
  assumes "ms < 50"
  shows "sint (ms * 1000) = 1000 * uint ms"
proof -
  have b: "uint ms < 50"
    using assms by (simp add: word_less_def)
  have eq: "ms * 1000 = word_of_int (uint ms * 1000)"
    by (simp add: wi_hom_syms)
  have "sint (word_of_int (uint ms * 1000) :: 32 word)
          = signed_take_bit (LENGTH(32) - Suc 0) (uint ms * 1000)"
    by (simp only: signed_of_int of_int_eq_id id_apply)
  also have "\<dots> = signed_take_bit 31 (uint ms * 1000)"
    by simp
  also have "\<dots> = uint ms * 1000"
  proof (rule signed_take_bit_int_eq_self)
    have "0 \<le> uint ms * 1000" by simp
    moreover have "- (2 ^ 31) \<le> (0 :: int)" by simp
    ultimately show "- (2 ^ 31) \<le> uint ms * 1000" by (rule order_trans [rotated])
    show "uint ms * 1000 < 2 ^ 31" using b by simp
  qed
  finally show ?thesis
    by (simp only: eq mult.commute)
qed

lemma sint_below:
  fixes ms :: "32 word"
  assumes "uint ms < 2 ^ 31"
  shows "sint ms = uint ms"
proof -
  have "sint ms = signed_take_bit (LENGTH(32) - Suc 0) (uint ms)"
    by (rule sint_uint)
  also have "\<dots> = signed_take_bit 31 (uint ms)"
    by simp
  also have "\<dots> = uint ms"
  proof (rule signed_take_bit_int_eq_self)
    have "0 \<le> uint ms" by simp
    moreover have "- (2 ^ 31) \<le> (0 :: int)" by simp
    ultimately show "- (2 ^ 31) \<le> uint ms" by (rule order_trans [rotated])
    show "uint ms < 2 ^ 31" by (rule assms)
  qed
  finally show ?thesis .
qed

lemma sint_above:
  fixes ms :: "32 word"
  assumes "2 ^ 31 \<le> uint ms"
  shows "sint ms < 0"
proof -
  have "sint ms = signed_take_bit (LENGTH(32) - Suc 0) (uint ms)"
    by (rule sint_uint)
  also have "\<dots> = signed_take_bit 31 (uint ms)"
    by simp
  also have "\<dots> \<le> uint ms - 2 ^ Suc 31"
    by (rule signed_take_bit_int_less_eq) (rule assms)
  finally have le: "sint ms \<le> uint ms - 2 ^ Suc 31" .
  have "uint ms < 2 ^ LENGTH(32)"
    by (rule uint_lt2p)
  then have "uint ms - 2 ^ Suc 31 < 0"
    by simp
  with le show ?thesis
    by (rule le_less_trans)
qed

lemma trace_stopTimerNS:
  "trace (stopTimerNS s) = trace s
     @ (if NStimerID s \<noteq> - 1 then [GuideComplete AXIS_DE, IERmTimer (NStimerID s)] else [])"
  "NStimerID (stopTimerNS s) = - 1"
  by (simp_all add: stopTimerNS_def emit_def)

lemma trace_stopTimerWE:
  "trace (stopTimerWE s) = trace s
     @ (if WEtimerID s \<noteq> - 1 then [GuideComplete AXIS_RA, IERmTimer (WEtimerID s)] else [])"
  "WEtimerID (stopTimerWE s) = - 1"
  by (simp_all add: stopTimerWE_def emit_def)

lemma UpdateCCDFrame_frame:
  assumes "UpdateCCDFrame x y w h hw s = Some (ok, s')"
  shows "BinX (PrimaryCCD s') = BinX (PrimaryCCD s) \<and> BinY (PrimaryCCD s') = BinY (PrimaryCCD s)
       \<and> take (length (trace s)) (trace s') = trace s"
  using assms
  by (auto simp add: UpdateCCDFrame_def Let_def emit_def setFrameBufferSize_def
      split: if_splits)

lemma trace_allocateFrameBuffer:
  "trace (allocateFrameBuffer s) = trace s"
  by (simp add: allocateFrameBuffer_def Let_def split: video_format.splits)

lemma trace_getBayerString:
  "trace (snd (getBayerString raw s)) = trace s @ [Sdk Toupcam_get_RawFormat]"
  by (simp add: getBayerString_def Let_def emit_def)

lemma trace_apply_format:
  "trace (apply_format target raw s) = trace s
     @ (if target = TC_VIDEO_RAW then [Sdk Toupcam_get_RawFormat] else [])
     @ [Sdk Toupcam_get_RawFormat, Sdk Toupcam_StartPullModeWithCallback]"
  by (cases target)
     (simp_all add: apply_format_def Let_def emit_def trace_allocateFrameBuffer
       trace_getBayerString)

lemma trace_format_failed:
  "trace (format_failed s) = trace s @ [Sdk Toupcam_StartPullModeWithCallback]"
  by (simp add: format_failed_def emit_def)

lemma trace_ISNewSwitch_VideoFormat:
  assumes "\<not> isBusy (Streamer s)" and "find_format targetFormat VideoFormatS = Some target"
    and "\<not> (m_MaxBitDepth s = 8 \<and> target = TC_VIDEO_MONO_16)"
    and "\<not> (target = TC_VIDEO_RAW \<and> \<not> m_RAWFormatSupport s)"
    and "\<not> (target = TC_VIDEO_RGB \<and> FLAG_MONO s)"
  shows "trace (ISNewSwitch_VideoFormat targetFormat raw hw s) =
     trace s @ [Sdk Toupcam_Stop, Sdk (Toupcam_put_Option TOUPCAM_OPTION_RAW (Val 1))]
     @ (if hw (Toupcam_put_Option TOUPCAM_OPTION_RAW (Val 1)) < 0
        then [Sdk Toupcam_StartPullModeWithCallback]
        else Sdk (Toupcam_put_Option TOUPCAM_OPTION_BITDEPTH (Val 1))
          # (if hw (Toupcam_put_Option TOUPCAM_OPTION_BITDEPTH (Val 1)) < 0
             then [Sdk Toupcam_StartPullModeWithCallback]
             else Sdk (Toupcam_put_Option TOUPCAM_OPTION_PIXEL_FORMAT TOUPCAM_PIXELFORMAT_RAW12)
               # (if hw (Toupcam_put_Option TOUPCAM_OPTION_PIXEL_FORMAT TOUPCAM_PIXELFORMAT_RAW12) < 0
                  then [Sdk Toupcam_StartPullModeWithCallback]
                  else if target = TC_VIDEO_RAW
                  then [Sdk (Toupcam_get_Option TOUPCAM_OPTION_RGB), Sdk Toupcam_get_RawFormat,
                        Sdk Toupcam_get_RawFormat, Sdk Toupcam_StartPullModeWithCallback]
                  else Sdk (Toupcam_put_Option TOUPCAM_OPTION_RGB
                             (Val (if target = TC_VIDEO_MONO_8 then 3
                                   else if target = TC_VIDEO_MONO_16 then 4 else 0)))
                    # (if hw (Toupcam_put_Option TOUPCAM_OPTION_RGB
                               (Val (if target = TC_VIDEO_MONO_8 then 3
                                     else if target = TC_VIDEO_MONO_16 then 4 else 0))) < 0
                       then [Sdk Toupcam_StartPullModeWithCallback]
                       else [Sdk (Toupcam_get_Option TOUPCAM_OPTION_RGB), Sdk Toupcam_get_RawFormat,
                             Sdk Toupcam_StartPullModeWithCallback]))))"
  using assms
  by (simp add: ISNewSwitch_VideoFormat_def Let_def trace_apply_format trace_format_failed
      emit_def)

lemma cam_mono16_eval:
  "currentVideoFormat cam_mono16 = TC_VIDEO_MONO_16"
  "VideoFormatSP_s cam_mono16 = IPS_OK"
  "m_BitsPerPixel cam_mono16 = 16" "m_Channels cam_mono16 = 1"
  "FrameBufferSize (PrimaryCCD cam_mono16) = 16"
  "BPP (PrimaryCCD cam_mono16) = 8"
  "XRes (PrimaryCCD cam_mono16) = 4" "YRes (PrimaryCCD cam_mono16) = 2"
  "BinX (PrimaryCCD cam_mono16) = 1" "BinY (PrimaryCCD cam_mono16) = 1"
  by (simp_all add: cam_mono16_def ISNewSwitch_VideoFormat_def VideoFormatS_def Let_def
      apply_format_def allocateFrameBuffer_def setFrameBufferSize_def emit_def accept_all_def
      cam0_def)

section \<open>Capture controller: the claims\<close>

text \<open>
  Claim C1, as amended. \<^verbatim>\<open>StartExposure\<close> does not look at the session state. It fails
  exactly when one of its three hardware commands (exposure time, trigger option, trigger)
  is refused, and then the deadline \<^verbatim>\<open>ExposureEnd\<close> and \<^verbatim>\<open>InExposure\<close> are as before.
  When all three are accepted it succeeds in every state, also during an exposure, sets
  \<^verbatim>\<open>InExposure\<close> and overwrites the deadline with the current time plus the duration.
\<close>

theorem StartExposure_ignores_state:
  "fst (StartExposure duration uSecs now hw s) =
     (0 \<le> hw (Toupcam_put_ExpoTime uSecs)
      \<and> 0 \<le> hw (Toupcam_put_Option TOUPCAM_OPTION_TRIGGER (Val 1))
      \<and> 0 \<le> hw (Toupcam_Trigger 1))
   \<and> (fst (StartExposure duration uSecs now hw s) \<longrightarrow>
        InExposure (snd (StartExposure duration uSecs now hw s))
        \<and> ExposureEnd (snd (StartExposure duration uSecs now hw s))
            = timeradd now (uint (uSecs div 1000000), uint (uSecs mod 1000000)))
   \<and> (\<not> fst (StartExposure duration uSecs now hw s) \<longrightarrow>
        InExposure (snd (StartExposure duration uSecs now hw s)) = InExposure s
        \<and> ExposureEnd (snd (StartExposure duration uSecs now hw s)) = ExposureEnd s)"
  by (simp add: StartExposure_def Let_def emit_def not_less)

theorem StartExposure_ignores_state_witness:
  "InExposure cam_exposing
   \<and> fst (StartExposure 5 5000000 (100, 500000) accept_all cam_exposing)
   \<and> ExposureEnd (snd (StartExposure 5 5000000 (100, 500000) accept_all cam_exposing))
       = (105, 500000)"
  using StartExposure_ignores_state [of 5 5000000 "(100, 500000)" accept_all cam_exposing]
  by (simp add: accept_all_def timeradd_def cam_exposing_eval)

text \<open>
  The claim as stated fails: during the exposure \<open>cam_exposing\<close>, whose deadline is
  101 s, a second \<^verbatim>\<open>StartExposure\<close> of five seconds at 100.5 s returns true and moves the
  deadline to 105.5 s.
\<close>

theorem StartExposure_while_exposing_counterexample:
  "InExposure cam_exposing
   \<and> ExposureEnd cam_exposing = (101, 0)
   \<and> fst (StartExposure 5 5000000 (100, 500000) accept_all cam_exposing) = True
   \<and> ExposureEnd (snd (StartExposure 5 5000000 (100, 500000) accept_all cam_exposing))
       \<noteq> ExposureEnd cam_exposing"
  by (simp add: cam_exposing_def StartExposure_def Let_def emit_def accept_all_def
      cam0_def timeradd_def)




section \<open>Frame delivery: the claims\<close>

text \<open>
  Claim C3, as amended. An image event handled while the send-pending flag is false and
  the camera is not streaming never calls \<^verbatim>\<open>ExposureComplete\<close> and leaves both flags as
  they were, but it is not free of effects: the image is still pulled from the SDK, into
  the live frame buffer, and a failed pull sets the exposure state to alert.
\<close>

theorem image_event_without_send_pending:
  assumes "\<not> isStreaming (Streamer s)" and "\<not> m_SendImage s"
  shows "(rc < 0 \<longrightarrow>
            eventPullCallBack TOUPCAM_EVENT_IMAGE rc data s =
              Some ((emit (Sdk (Toupcam_PullImageV2 (m_BitsPerPixel s * m_Channels s))) s)
                      \<lparr>PrimaryCCD := setExposureFailed (PrimaryCCD s)\<rparr>))
       \<and> (0 \<le> rc \<longrightarrow> length data \<le> length (FrameBuffer (PrimaryCCD s)) \<longrightarrow>
            eventPullCallBack TOUPCAM_EVENT_IMAGE rc data s =
              Some ((emit (Sdk (Toupcam_PullImageV2 (m_BitsPerPixel s * m_Channels s))) s)
                      \<lparr>PrimaryCCD := (PrimaryCCD s)
                         \<lparr>FrameBuffer := data @ drop (length data) (FrameBuffer (PrimaryCCD s))\<rparr>\<rparr>))
       \<and> (\<forall>s'. eventPullCallBack TOUPCAM_EVENT_IMAGE rc data s = Some s' \<longrightarrow>
            trace s' = trace s @ [Sdk (Toupcam_PullImageV2 (m_BitsPerPixel s * m_Channels s))]
            \<and> \<not> m_SendImage s' \<and> InExposure s' = InExposure s)"
  using assms
  by (auto simp add: image_event_not_pending pull_into_def emit_def split: if_splits)

theorem image_event_without_send_pending_witness:
  "\<not> isStreaming (Streamer cam0) \<and> \<not> m_SendImage cam0
   \<and> map_option (\<lambda>s'. (trace s', m_SendImage s', take 4 (FrameBuffer (PrimaryCCD s'))))
        (eventPullCallBack TOUPCAM_EVENT_IMAGE 0 [1, 2, 3] cam0)
       = Some ([Sdk (Toupcam_PullImageV2 24)], False, [1, 2, 3, 0])"
proof -
  have flags: "\<not> isStreaming (Streamer cam0)" "\<not> m_SendImage cam0"
    by (simp_all add: cam0_def)
  show ?thesis
    using image_event_without_send_pending [OF flags, of 0 "[1, 2, 3]"]
    by (simp add: cam0_def emit_def)
qed

text \<open>
  The claim as stated fails on "without side effects": on the idle camera \<open>cam0\<close> a failed
  pull turns the exposure state from idle to alert, and a successful pull overwrites the
  start of the frame buffer.
\<close>

theorem image_event_side_effects_counterexample:
  "\<not> isStreaming (Streamer cam0) \<and> \<not> m_SendImage cam0
   \<and> ImageExposureState (PrimaryCCD cam0) = IPS_IDLE
   \<and> map_option (\<lambda>s. ImageExposureState (PrimaryCCD s))
        (eventPullCallBack TOUPCAM_EVENT_IMAGE (- 1) [] cam0) = Some IPS_ALERT
   \<and> FrameBuffer (PrimaryCCD cam0) = replicate 24 0
   \<and> map_option (\<lambda>s. take 6 (FrameBuffer (PrimaryCCD s)))
        (eventPullCallBack TOUPCAM_EVENT_IMAGE 0 [1, 2, 3, 4, 5, 6] cam0)
       = Some [1, 2, 3, 4, 5, 6]"
  by (simp add: eventPullCallBack_def image_event_single_def Let_def emit_def cam0_def
      setExposureFailed_def pull_into_def)

text \<open>
  Claim C5, as amended. When the pull fails while the send-pending flag is set (single
  exposure, not streaming), the handler sets the exposure state to alert, publishes
  nothing (in RGB the temporary buffer is allocated and freed) and leaves the send-pending
  flag set.
\<close>

theorem pull_failure_keeps_send_pending:
  assumes "\<not> isStreaming (Streamer s)" and "m_SendImage s" and "rc < 0"
    and "currentVideoFormat s = TC_VIDEO_RGB
           \<longrightarrow> 0 \<le> XRes (PrimaryCCD s) * YRes (PrimaryCCD s) * 3"
  shows "\<exists>s'. eventPullCallBack TOUPCAM_EVENT_IMAGE rc data s = Some s'
       \<and> ImageExposureState (PrimaryCCD s') = IPS_ALERT
       \<and> m_SendImage s'
       \<and> InExposure s' = InExposure s
       \<and> FrameBuffer (PrimaryCCD s') = FrameBuffer (PrimaryCCD s)
       \<and> trace s' = trace s @
           (if currentVideoFormat s = TC_VIDEO_RGB
            then [Malloc (XRes (PrimaryCCD s) * YRes (PrimaryCCD s) * 3),
                  Sdk (Toupcam_PullImageV2 (m_BitsPerPixel s * m_Channels s)), Free]
            else [Sdk (Toupcam_PullImageV2 (m_BitsPerPixel s * m_Channels s))])"
  using assms
  by (simp add: eventPullCallBack_def image_event_single_def Let_def emit_def
      setExposureFailed_def not_less)

theorem pull_failure_keeps_send_pending_witness:
  "\<exists>s'. eventPullCallBack TOUPCAM_EVENT_IMAGE (- 1) [] cam_pending = Some s'
       \<and> ImageExposureState (PrimaryCCD s') = IPS_ALERT
       \<and> m_SendImage s'
       \<and> trace s' = trace cam_pending @ [Malloc 24, Sdk (Toupcam_PullImageV2 24), Free]"
proof -
  have pre: "\<not> isStreaming (Streamer cam_pending)" "m_SendImage cam_pending" "(- 1 :: int) < 0"
    "currentVideoFormat cam_pending = TC_VIDEO_RGB
       \<longrightarrow> 0 \<le> XRes (PrimaryCCD cam_pending) * YRes (PrimaryCCD cam_pending) * 3"
    by (simp_all add: cam_pending_def cam_exposing_def sendImageCallBack_def StartExposure_def
        Let_def emit_def accept_all_def cam0_def)
  have vals: "currentVideoFormat cam_pending = TC_VIDEO_RGB"
    "XRes (PrimaryCCD cam_pending) * YRes (PrimaryCCD cam_pending) * 3 = 24"
    "m_BitsPerPixel cam_pending * m_Channels cam_pending = 24"
    by (simp_all add: cam_pending_def cam_exposing_def sendImageCallBack_def StartExposure_def
        Let_def emit_def accept_all_def cam0_def)
  show ?thesis
    using pull_failure_keeps_send_pending [OF pre, of "[]"]
    by (auto simp add: vals)
qed

text \<open>
  The claim as stated fails on "clears send-pending": after the failed pull in
  \<open>cam_pending\<close> the flag is still set and nothing has been published.
\<close>

theorem pull_failure_counterexample:
  "m_SendImage cam_pending = True
   \<and> map_option m_SendImage (eventPullCallBack TOUPCAM_EVENT_IMAGE (- 1) [] cam_pending)
       = Some True"
  by (simp add: eventPullCallBack_def image_event_single_def Let_def emit_def cam0_def
      setExposureFailed_def cam_pending_def cam_exposing_def sendImageCallBack_def
      StartExposure_def accept_all_def)

text \<open>
  Claim C6. A single exposure that completes in RGB (send-pending set, not streaming, a
  successful pull): the handler allocates a temporary buffer of
  \<^verbatim>\<open>XRes * YRes * 3\<close> bytes, pulls the image into it, and for every pixel index \<open>i\<close> below
  the plane size writes the bytes \<open>3 i\<close>, \<open>3 i + 1\<close>, \<open>3 i + 2\<close> of the temporary buffer
  to the frame buffer at \<open>i\<close>, \<open>planeSize + i\<close> and \<open>2 planeSize + i\<close>; it then frees
  the temporary buffer and publishes. The plane size is the \<^verbatim>\<open>width * height\<close> of the
  source (the binned sub-frame). The handler returns whenever the binning factors are not
  zero and three planes fit in both buffers.
\<close>

theorem rgb_single_exposure_deinterleaved:
  assumes "\<not> isStreaming (Streamer s)" and "m_SendImage s"
    and "currentVideoFormat s = TC_VIDEO_RGB" and "0 \<le> rc"
    and "BinX (PrimaryCCD s) \<noteq> 0" and "BinY (PrimaryCCD s) \<noteq> 0"
    and "0 \<le> XRes (PrimaryCCD s) * YRes (PrimaryCCD s) * 3"
    and "length data \<le> nat (XRes (PrimaryCCD s) * YRes (PrimaryCCD s) * 3)"
    and "3 * rgb_plane (PrimaryCCD s) \<le> nat (XRes (PrimaryCCD s) * YRes (PrimaryCCD s) * 3)"
    and "3 * rgb_plane (PrimaryCCD s) \<le> length (FrameBuffer (PrimaryCCD s))"
    and "3 * rgb_plane (PrimaryCCD s) < 2 ^ 31"
  shows "\<exists>s' tmp.
           eventPullCallBack TOUPCAM_EVENT_IMAGE rc data s = Some s'
         \<and> pull_into data (replicate (nat (XRes (PrimaryCCD s) * YRes (PrimaryCCD s) * 3)) 0) = Some tmp
         \<and> length tmp = nat (XRes (PrimaryCCD s) * YRes (PrimaryCCD s) * 3)
         \<and> (\<forall>i<rgb_plane (PrimaryCCD s).
                FrameBuffer (PrimaryCCD s') ! i = tmp ! (3 * i)
              \<and> FrameBuffer (PrimaryCCD s') ! (rgb_plane (PrimaryCCD s) + i) = tmp ! (3 * i + 1)
              \<and> FrameBuffer (PrimaryCCD s') ! (2 * rgb_plane (PrimaryCCD s) + i) = tmp ! (3 * i + 2))
         \<and> trace s' = trace s @
              [Malloc (XRes (PrimaryCCD s) * YRes (PrimaryCCD s) * 3),
               Sdk (Toupcam_PullImageV2 (m_BitsPerPixel s * m_Channels s)), Free, ExposureComplete]
         \<and> \<not> m_SendImage s'"
proof -
  let ?c = "PrimaryCCD s"
  let ?n = "XRes ?c * YRes ?c * 3"
  let ?P = "rgb_plane ?c"
  let ?tmp = "data @ drop (length data) (replicate (nat ?n) 0)"
  let ?s2 = "emit (Sdk (Toupcam_PullImageV2 (m_BitsPerPixel s * m_Channels s))) (emit (Malloc ?n) s)"
  have tmp: "pull_into data (replicate (nat ?n) 0) = Some ?tmp"
    using assms(8) by (simp add: pull_into_def)
  have ltmp: "length ?tmp = nat ?n"
    using assms(8) by simp
  have c2: "PrimaryCCD ?s2 = ?c"
    by (simp add: emit_def)
  have pre: "BinX (PrimaryCCD ?s2) \<noteq> 0" "BinY (PrimaryCCD ?s2) \<noteq> 0"
    "3 * rgb_plane (PrimaryCCD ?s2) \<le> length ?tmp"
    "3 * rgb_plane (PrimaryCCD ?s2) \<le> length (FrameBuffer (PrimaryCCD ?s2))"
    "3 * rgb_plane (PrimaryCCD ?s2) < 2 ^ 31"
    using assms(5,6,8,9,10,11) by (simp_all add: c2)
  obtain img' where
    deliver: "deliver_rgb ?tmp ?s2
                = Some (emit Free (?s2\<lparr>PrimaryCCD := (PrimaryCCD ?s2)\<lparr>FrameBuffer := img'\<rparr>\<rparr>))"
    and planes2: "\<forall>i<rgb_plane (PrimaryCCD ?s2).
                  img' ! i = ?tmp ! (3 * i)
                \<and> img' ! (rgb_plane (PrimaryCCD ?s2) + i) = ?tmp ! (3 * i + 1)
                \<and> img' ! (2 * rgb_plane (PrimaryCCD ?s2) + i) = ?tmp ! (3 * i + 2)"
    using deliver_rgb_planes [OF pre] by (elim exE conjE)
  let ?s' = "(emit ExposureComplete
                (emit Free (?s2\<lparr>PrimaryCCD := (PrimaryCCD ?s2)\<lparr>FrameBuffer := img'\<rparr>\<rparr>)))
               \<lparr>m_SendImage := False\<rparr>"
  have flags2: "m_SendImage ?s2" "currentVideoFormat ?s2 = TC_VIDEO_RGB"
    using assms(2,3) by (simp_all add: emit_def)
  have single: "image_event_single rc data s =
      (case deliver_rgb ?tmp ?s2 of
         None \<Rightarrow> None
       | Some s4 \<Rightarrow> Some ((emit ExposureComplete s4)\<lparr>m_SendImage := False\<rparr>))"
    using assms(2,3,4,7) flags2 by (simp add: image_event_single_def Let_def tmp not_less)
  have ev: "eventPullCallBack TOUPCAM_EVENT_IMAGE rc data s = image_event_single rc data s"
    using assms(1) by (simp add: eventPullCallBack_def)
  have run: "eventPullCallBack TOUPCAM_EVENT_IMAGE rc data s = Some ?s'"
    by (simp only: ev single deliver option.case)
  have fb: "FrameBuffer (PrimaryCCD ?s') = img'"
    by (simp add: emit_def)
  have planes0: "\<forall>i<?P. img' ! i = ?tmp ! (3 * i)
              \<and> img' ! (?P + i) = ?tmp ! (3 * i + 1)
              \<and> img' ! (2 * ?P + i) = ?tmp ! (3 * i + 2)"
    using planes2 by (simp only: c2)
  have planes: "\<forall>i<?P. FrameBuffer (PrimaryCCD ?s') ! i = ?tmp ! (3 * i)
              \<and> FrameBuffer (PrimaryCCD ?s') ! (?P + i) = ?tmp ! (3 * i + 1)
              \<and> FrameBuffer (PrimaryCCD ?s') ! (2 * ?P + i) = ?tmp ! (3 * i + 2)"
    using planes0 by (simp only: fb)
  have tr: "trace ?s' = trace s @ [Malloc ?n, Sdk (Toupcam_PullImageV2 (m_BitsPerPixel s * m_Channels s)),
              Free, ExposureComplete]"
    by (simp add: emit_def)
  have fl: "\<not> m_SendImage ?s'"
    by simp
  show ?thesis
    using run tmp ltmp planes tr fl by (intro exI [of _ ?s'] exI [of _ ?tmp] conjI)
qed

theorem rgb_single_exposure_deinterleaved_witness:
  "\<exists>s'. eventPullCallBack TOUPCAM_EVENT_IMAGE 0
           [1, 2, 3, 4, 5, 6, 7, 8, 9, 10, 11, 12, 13, 14, 15, 16, 17, 18, 19, 20, 21, 22, 23, 24]
           cam_pending = Some s'
       \<and> FrameBuffer (PrimaryCCD s') ! 5 = 16
       \<and> FrameBuffer (PrimaryCCD s') ! 13 = 17
       \<and> FrameBuffer (PrimaryCCD s') ! 21 = 18
       \<and> trace s' = trace cam_pending
            @ [Malloc 24, Sdk (Toupcam_PullImageV2 24), Free, ExposureComplete]"
proof -
  let ?data = "[1, 2, 3, 4, 5, 6, 7, 8, 9, 10, 11, 12, 13, 14, 15, 16, 17, 18, 19, 20, 21, 22,
                23, 24] :: byte list"
  have plane: "rgb_plane (PrimaryCCD cam_pending) = 8"
    by (simp add: rgb_plane_def rgb_width_def rgb_height_def cam_pending_eval)
  have pre: "\<not> isStreaming (Streamer cam_pending)" "m_SendImage cam_pending"
    "currentVideoFormat cam_pending = TC_VIDEO_RGB" "(0 :: int) \<le> 0"
    "BinX (PrimaryCCD cam_pending) \<noteq> 0" "BinY (PrimaryCCD cam_pending) \<noteq> 0"
    "0 \<le> XRes (PrimaryCCD cam_pending) * YRes (PrimaryCCD cam_pending) * 3"
    "length ?data \<le> nat (XRes (PrimaryCCD cam_pending) * YRes (PrimaryCCD cam_pending) * 3)"
    "3 * rgb_plane (PrimaryCCD cam_pending)
       \<le> nat (XRes (PrimaryCCD cam_pending) * YRes (PrimaryCCD cam_pending) * 3)"
    "3 * rgb_plane (PrimaryCCD cam_pending) \<le> length (FrameBuffer (PrimaryCCD cam_pending))"
    "3 * rgb_plane (PrimaryCCD cam_pending) < 2 ^ 31"
    by (simp_all add: plane cam_pending_eval)
  from rgb_single_exposure_deinterleaved [OF pre]
  obtain s' tmp where
    run: "eventPullCallBack TOUPCAM_EVENT_IMAGE 0 ?data cam_pending = Some s'"
    and tmp: "pull_into ?data
                (replicate (nat (XRes (PrimaryCCD cam_pending) * YRes (PrimaryCCD cam_pending) * 3)) 0)
              = Some tmp"
    and planes: "\<forall>i<rgb_plane (PrimaryCCD cam_pending).
                FrameBuffer (PrimaryCCD s') ! i = tmp ! (3 * i)
              \<and> FrameBuffer (PrimaryCCD s') ! (rgb_plane (PrimaryCCD cam_pending) + i) = tmp ! (3 * i + 1)
              \<and> FrameBuffer (PrimaryCCD s') ! (2 * rgb_plane (PrimaryCCD cam_pending) + i) = tmp ! (3 * i + 2)"
    and tr: "trace s' = trace cam_pending @
              [Malloc (XRes (PrimaryCCD cam_pending) * YRes (PrimaryCCD cam_pending) * 3),
               Sdk (Toupcam_PullImageV2 (m_BitsPerPixel cam_pending * m_Channels cam_pending)),
               Free, ExposureComplete]"
    by (elim exE conjE)
  have tmp_eq: "tmp = ?data"
    using tmp by (simp add: pull_into_def cam_pending_eval)
  have "(5 :: nat) < rgb_plane (PrimaryCCD cam_pending)"
    by (simp add: plane)
  with planes have "FrameBuffer (PrimaryCCD s') ! 5 = tmp ! (3 * 5)
              \<and> FrameBuffer (PrimaryCCD s') ! (rgb_plane (PrimaryCCD cam_pending) + 5) = tmp ! (3 * 5 + 1)
              \<and> FrameBuffer (PrimaryCCD s') ! (2 * rgb_plane (PrimaryCCD cam_pending) + 5) = tmp ! (3 * 5 + 2)"
    by blast
  then have px: "FrameBuffer (PrimaryCCD s') ! 5 = 16" "FrameBuffer (PrimaryCCD s') ! 13 = 17"
    "FrameBuffer (PrimaryCCD s') ! 21 = 18"
    by (simp_all add: plane tmp_eq)
  have tr': "trace s' = trace cam_pending
            @ [Malloc 24, Sdk (Toupcam_PullImageV2 24), Free, ExposureComplete]"
    using tr by (simp add: cam_pending_eval)
  show ?thesis
    using run px tr' by (intro exI [of _ s'] conjI)
qed

section \<open>Mode and format manager: the claims\<close>

text \<open>
  Claim C2. The claim holds right after the switch to Mono 16, where
  \<^verbatim>\<open>allocateFrameBuffer\<close> sizes the buffer as \<^verbatim>\<open>XRes * YRes * 2\<close>, but that function also
  records 8 bits per pixel in the chip, and \<^verbatim>\<open>UpdateCCDFrame\<close> sizes the buffer from the
  chip's value. On the 4 by 2 sensor in Mono 16 (16 bits per pixel, one channel), a
  successful \<^verbatim>\<open>UpdateCCDFrame(0, 0, 4, 2)\<close> leaves a buffer of 8 bytes, where
  width times height times bytes per pixel times channels is 16.
\<close>

theorem mono16_UpdateCCDFrame_buffer_size:
  "currentVideoFormat cam_mono16 = TC_VIDEO_MONO_16
   \<and> VideoFormatSP_s cam_mono16 = IPS_OK
   \<and> FrameBufferSize (PrimaryCCD cam_mono16) = 16
   \<and> map_option (\<lambda>r. (fst r, SubW (PrimaryCCD (snd r)), SubH (PrimaryCCD (snd r)),
                     m_BitsPerPixel (snd r), m_Channels (snd r),
                     FrameBufferSize (PrimaryCCD (snd r))))
        (UpdateCCDFrame 0 0 4 2 accept_all cam_mono16)
       = Some (True, 4, 2, 16, 1, 8)"
  by (simp add: UpdateCCDFrame_def Let_def emit_def setFrameBufferSize_def accept_all_def
      make_even_def smod_int_alt_def cam_mono16_eval)

text \<open>
  Claim C7, as amended. \<^verbatim>\<open>UpdateCCDFrame(x, y, w, h)\<close> rounds each of its four arguments
  towards zero to an even value: down to the nearest even value when the argument is not
  negative, up when it is negative. When the rounded \<open>w\<close> or \<open>h\<close> exceeds the sensor's
  resolution it fails with the camera untouched, before any ROI call. Otherwise (binning
  factors not zero) its one hardware call is the ROI of the four rounded values, which
  become the sub-frame when the hardware accepts. On a sensor of at least 106 by 58,
  \<^verbatim>\<open>UpdateCCDFrame(5, 7, 101, 51)\<close> applies the ROI (4, 6, 100, 50).
\<close>

theorem UpdateCCDFrame_clamps_toward_zero:
  "(\<forall>v. even (make_even v)
        \<and> (0 \<le> v \<longrightarrow> make_even v \<le> v \<and> v < make_even v + 2)
        \<and> (v < 0 \<longrightarrow> v \<le> make_even v \<and> make_even v < v + 2))
   \<and> (XRes (PrimaryCCD s) < make_even w \<or> YRes (PrimaryCCD s) < make_even h
        \<longrightarrow> UpdateCCDFrame x y w h hw s = Some (False, s))
   \<and> (make_even w \<le> XRes (PrimaryCCD s) \<and> make_even h \<le> YRes (PrimaryCCD s)
        \<and> BinX (PrimaryCCD s) \<noteq> 0 \<and> BinY (PrimaryCCD s) \<noteq> 0
        \<longrightarrow> (\<exists>s'. UpdateCCDFrame x y w h hw s
                    = Some (0 \<le> hw (Toupcam_put_Roi (make_even x) (make_even y) (make_even w) (make_even h)), s')
                \<and> trace s' = trace s
                     @ [Sdk (Toupcam_put_Roi (make_even x) (make_even y) (make_even w) (make_even h))]
                \<and> (0 \<le> hw (Toupcam_put_Roi (make_even x) (make_even y) (make_even w) (make_even h))
                     \<longrightarrow> SubX (PrimaryCCD s') = make_even x \<and> SubY (PrimaryCCD s') = make_even y
                       \<and> SubW (PrimaryCCD s') = make_even w \<and> SubH (PrimaryCCD s') = make_even h)))
   \<and> (106 \<le> XRes (PrimaryCCD s) \<and> 58 \<le> YRes (PrimaryCCD s)
        \<and> BinX (PrimaryCCD s) \<noteq> 0 \<and> BinY (PrimaryCCD s) \<noteq> 0
        \<longrightarrow> (\<exists>s'. UpdateCCDFrame 5 7 101 51 hw s = Some (0 \<le> hw (Toupcam_put_Roi 4 6 100 50), s')
                \<and> trace s' = trace s @ [Sdk (Toupcam_put_Roi 4 6 100 50)]
                \<and> (0 \<le> hw (Toupcam_put_Roi 4 6 100 50)
                     \<longrightarrow> SubX (PrimaryCCD s') = 4 \<and> SubY (PrimaryCCD s') = 6
                       \<and> SubW (PrimaryCCD s') = 100 \<and> SubH (PrimaryCCD s') = 50)))"
proof (intro conjI allI impI)
  fix v show "even (make_even v)" by (rule make_even_props)
next
  fix v :: int assume "0 \<le> v" then show "make_even v \<le> v" "v < make_even v + 2"
    using make_even_props(2) by blast+
next
  fix v :: int assume "v < 0" then show "v \<le> make_even v" "make_even v < v + 2"
    using make_even_props(3) by blast+
next
  assume "XRes (PrimaryCCD s) < make_even w \<or> YRes (PrimaryCCD s) < make_even h"
  then show "UpdateCCDFrame x y w h hw s = Some (False, s)"
    by (auto simp add: UpdateCCDFrame_def Let_def)
next
  assume "make_even w \<le> XRes (PrimaryCCD s) \<and> make_even h \<le> YRes (PrimaryCCD s)
        \<and> BinX (PrimaryCCD s) \<noteq> 0 \<and> BinY (PrimaryCCD s) \<noteq> 0"
  then show "\<exists>s'. UpdateCCDFrame x y w h hw s
                    = Some (0 \<le> hw (Toupcam_put_Roi (make_even x) (make_even y) (make_even w) (make_even h)), s')
                \<and> trace s' = trace s
                     @ [Sdk (Toupcam_put_Roi (make_even x) (make_even y) (make_even w) (make_even h))]
                \<and> (0 \<le> hw (Toupcam_put_Roi (make_even x) (make_even y) (make_even w) (make_even h))
                     \<longrightarrow> SubX (PrimaryCCD s') = make_even x \<and> SubY (PrimaryCCD s') = make_even y
                       \<and> SubW (PrimaryCCD s') = make_even w \<and> SubH (PrimaryCCD s') = make_even h)"
    by (simp add: UpdateCCDFrame_def Let_def emit_def setFrameBufferSize_def not_less)
next
  assume "106 \<le> XRes (PrimaryCCD s) \<and> 58 \<le> YRes (PrimaryCCD s)
        \<and> BinX (PrimaryCCD s) \<noteq> 0 \<and> BinY (PrimaryCCD s) \<noteq> 0"
  then show "\<exists>s'. UpdateCCDFrame 5 7 101 51 hw s = Some (0 \<le> hw (Toupcam_put_Roi 4 6 100 50), s')
                \<and> trace s' = trace s @ [Sdk (Toupcam_put_Roi 4 6 100 50)]
                \<and> (0 \<le> hw (Toupcam_put_Roi 4 6 100 50)
                     \<longrightarrow> SubX (PrimaryCCD s') = 4 \<and> SubY (PrimaryCCD s') = 6
                       \<and> SubW (PrimaryCCD s') = 100 \<and> SubH (PrimaryCCD s') = 50)"
    by (simp add: UpdateCCDFrame_def Let_def emit_def setFrameBufferSize_def not_less
        make_even_numerals)
qed


theorem UpdateCCDFrame_clamps_toward_zero_witness:
  "(\<exists>s'. UpdateCCDFrame 5 7 101 51 accept_all cam_1280 = Some (True, s')
        \<and> trace s' = [Sdk (Toupcam_put_Roi 4 6 100 50)]
        \<and> SubX (PrimaryCCD s') = 4 \<and> SubY (PrimaryCCD s') = 6
        \<and> SubW (PrimaryCCD s') = 100 \<and> SubH (PrimaryCCD s') = 50)
   \<and> UpdateCCDFrame 0 0 7 2 accept_all cam0 = Some (False, cam0)"
proof -
  have big: "106 \<le> XRes (PrimaryCCD cam_1280) \<and> 58 \<le> YRes (PrimaryCCD cam_1280)
        \<and> BinX (PrimaryCCD cam_1280) \<noteq> 0 \<and> BinY (PrimaryCCD cam_1280) \<noteq> 0"
    by (simp add: cam_1280_def cam0_def)
  have small: "XRes (PrimaryCCD cam0) < make_even 7 \<or> YRes (PrimaryCCD cam0) < make_even 2"
    by (simp add: cam0_def make_even_def smod_int_alt_def)
  have tr: "trace cam_1280 = []"
    by (simp add: cam_1280_def cam0_def)
  show ?thesis
    using UpdateCCDFrame_clamps_toward_zero [of cam_1280 101 51 5 7 accept_all] big
      UpdateCCDFrame_clamps_toward_zero [of cam0 7 2 0 0 accept_all] small
    by (simp add: accept_all_def tr)
qed

text \<open>
  The claim as stated fails on "down": \<^verbatim>\<open>UpdateCCDFrame(-5, 0, 4, 2)\<close> on \<open>cam0\<close> applies
  the ROI with \<open>x = -4\<close>, which is above \<open>-5\<close> (the remainder of C++ has the sign of the
  dividend).
\<close>

theorem UpdateCCDFrame_negative_counterexample:
  "map_option (\<lambda>r. (fst r, SubX (PrimaryCCD (snd r)), last (trace (snd r))))
      (UpdateCCDFrame (- 5) 0 4 2 accept_all cam0)
     = Some (True, - 4, Sdk (Toupcam_put_Roi (- 4) 0 4 2))
   \<and> (- 5 :: int) < - 4"
  by (simp add: UpdateCCDFrame_def Let_def emit_def setFrameBufferSize_def cam0_def
      accept_all_def make_even_def smod_int_alt_def)

text \<open>
  Claim C9, as amended. \<^verbatim>\<open>UpdateCCDBin(binx, biny)\<close> never uses \<open>biny\<close>: its result is
  the same for every \<open>biny\<close>. The hardware binning option is written with \<open>binx\<close>, as the
  first call; a refusal ends the call there. Once the hardware has accepted, the chip
  records \<open>binx mod 256\<close> for both factors (\<^verbatim>\<open>setBin\<close> takes \<^verbatim>\<open>uint8_t\<close>), which is \<open>binx\<close>
  by \<open>binx\<close> when \<open>binx\<close> is between 0 and 255. The call returns whenever
  \<open>binx mod 256\<close> is not zero.
\<close>

theorem UpdateCCDBin_ignores_biny:
  "UpdateCCDBin binx biny hw s = UpdateCCDBin binx biny' hw s
   \<and> (hw (Toupcam_put_Option TOUPCAM_OPTION_BINNING (Val binx)) < 0 \<longrightarrow>
        UpdateCCDBin binx biny hw s
          = Some (False, emit (Sdk (Toupcam_put_Option TOUPCAM_OPTION_BINNING (Val binx))) s))
   \<and> (binx mod 256 \<noteq> 0 \<longrightarrow> UpdateCCDBin binx biny hw s \<noteq> None)
   \<and> (\<forall>ok s'. UpdateCCDBin binx biny hw s = Some (ok, s') \<longrightarrow>
        take (Suc (length (trace s))) (trace s')
          = trace s @ [Sdk (Toupcam_put_Option TOUPCAM_OPTION_BINNING (Val binx))]
        \<and> (0 \<le> hw (Toupcam_put_Option TOUPCAM_OPTION_BINNING (Val binx)) \<longrightarrow>
             BinX (PrimaryCCD s') = binx mod 256 \<and> BinY (PrimaryCCD s') = binx mod 256
             \<and> (0 \<le> binx \<and> binx < 256 \<longrightarrow>
                  BinX (PrimaryCCD s') = binx \<and> BinY (PrimaryCCD s') = binx)))"
proof (intro conjI impI allI)
  show "UpdateCCDBin binx biny hw s = UpdateCCDBin binx biny' hw s"
    by (simp add: UpdateCCDBin_def)
next
  assume "hw (Toupcam_put_Option TOUPCAM_OPTION_BINNING (Val binx)) < 0"
  then show "UpdateCCDBin binx biny hw s
          = Some (False, emit (Sdk (Toupcam_put_Option TOUPCAM_OPTION_BINNING (Val binx))) s)"
    by (simp add: UpdateCCDBin_def Let_def)
next
  assume "binx mod 256 \<noteq> 0"
  then show "UpdateCCDBin binx biny hw s \<noteq> None"
    by (auto simp add: UpdateCCDBin_def UpdateCCDFrame_def Let_def emit_def
        setFrameBufferSize_def setBin_def)
next
  fix ok s'
  assume run: "UpdateCCDBin binx biny hw s = Some (ok, s')"
  let ?s1 = "emit (Sdk (Toupcam_put_Option TOUPCAM_OPTION_BINNING (Val binx))) s"
  let ?s2 = "?s1\<lparr>PrimaryCCD := setBin binx binx (PrimaryCCD ?s1)\<rparr>"
  show "take (Suc (length (trace s))) (trace s')
          = trace s @ [Sdk (Toupcam_put_Option TOUPCAM_OPTION_BINNING (Val binx))]"
  proof (cases "hw (Toupcam_put_Option TOUPCAM_OPTION_BINNING (Val binx)) < 0")
    case True
    then show ?thesis using run by (auto simp add: UpdateCCDBin_def Let_def emit_def)
  next
    case False
    then have "UpdateCCDFrame (SubX (PrimaryCCD ?s2)) (SubY (PrimaryCCD ?s2))
                 (SubW (PrimaryCCD ?s2)) (SubH (PrimaryCCD ?s2)) hw ?s2 = Some (ok, s')"
      using run by (simp add: UpdateCCDBin_def Let_def)
    from UpdateCCDFrame_frame [OF this]
    have "take (length (trace ?s2)) (trace s') = trace ?s2" by blast
    then show ?thesis by (simp add: emit_def)
  qed
  assume acc: "0 \<le> hw (Toupcam_put_Option TOUPCAM_OPTION_BINNING (Val binx))"
  then have "UpdateCCDFrame (SubX (PrimaryCCD ?s2)) (SubY (PrimaryCCD ?s2))
                 (SubW (PrimaryCCD ?s2)) (SubH (PrimaryCCD ?s2)) hw ?s2 = Some (ok, s')"
    using run by (simp add: UpdateCCDBin_def Let_def not_less)
  from UpdateCCDFrame_frame [OF this]
  show recorded: "BinX (PrimaryCCD s') = binx mod 256" "BinY (PrimaryCCD s') = binx mod 256"
    by (simp_all add: setBin_def)
  assume "0 \<le> binx \<and> binx < 256"
  then have "binx mod 256 = binx"
    by simp
  with recorded show "BinX (PrimaryCCD s') = binx" "BinY (PrimaryCCD s') = binx"
    by simp_all
qed

theorem UpdateCCDBin_ignores_biny_witness:
  "UpdateCCDBin 2 3 accept_all cam0 = UpdateCCDBin 2 1 accept_all cam0
   \<and> map_option (\<lambda>r. (BinX (PrimaryCCD (snd r)), BinY (PrimaryCCD (snd r)),
                     take 1 (trace (snd r))))
        (UpdateCCDBin 2 3 accept_all cam0)
       = Some (2, 2, [Sdk (Toupcam_put_Option TOUPCAM_OPTION_BINNING (Val 2))])"
proof -
  have tr: "trace cam0 = []"
    by (simp add: cam0_def)
  note inst = UpdateCCDBin_ignores_biny [of 2 3 accept_all cam0 1]
  have same: "UpdateCCDBin 2 3 accept_all cam0 = UpdateCCDBin 2 1 accept_all cam0"
    using inst by blast
  have "(2 :: int) mod 256 \<noteq> 0"
    by simp
  with inst have "UpdateCCDBin 2 3 accept_all cam0 \<noteq> None"
    by blast
  then obtain ok s' where run: "UpdateCCDBin 2 3 accept_all cam0 = Some (ok, s')"
    by auto
  have "take (Suc (length (trace cam0))) (trace s')
          = trace cam0 @ [Sdk (Toupcam_put_Option TOUPCAM_OPTION_BINNING (Val 2))]
        \<and> (0 \<le> accept_all (Toupcam_put_Option TOUPCAM_OPTION_BINNING (Val 2)) \<longrightarrow>
             BinX (PrimaryCCD s') = 2 mod 256 \<and> BinY (PrimaryCCD s') = 2 mod 256
             \<and> (0 \<le> (2 :: int) \<and> (2 :: int) < 256 \<longrightarrow>
                  BinX (PrimaryCCD s') = 2 \<and> BinY (PrimaryCCD s') = 2))"
    using inst run by blast
  then have "take 1 (trace s') = [Sdk (Toupcam_put_Option TOUPCAM_OPTION_BINNING (Val 2))]"
    "BinX (PrimaryCCD s') = 2" "BinY (PrimaryCCD s') = 2"
    by (simp_all add: tr accept_all_def)
  then have "map_option (\<lambda>r. (BinX (PrimaryCCD (snd r)), BinY (PrimaryCCD (snd r)),
                     take 1 (trace (snd r))))
        (UpdateCCDBin 2 3 accept_all cam0)
       = Some (2, 2, [Sdk (Toupcam_put_Option TOUPCAM_OPTION_BINNING (Val 2))])"
    by (simp add: run)
  with same show ?thesis
    by (rule conjI)
qed

text \<open>
  The claim as stated fails on "the recorded binning becomes binX by binX":
  \<^verbatim>\<open>UpdateCCDBin(258, 1)\<close> on \<open>cam0\<close> writes 258 to the hardware option and succeeds, and
  the chip records a binning of 2 by 2.
\<close>

theorem UpdateCCDBin_truncated_counterexample:
  "map_option (\<lambda>r. (fst r, BinX (PrimaryCCD (snd r)), BinY (PrimaryCCD (snd r)),
                     take 1 (trace (snd r))))
      (UpdateCCDBin 258 1 accept_all cam0)
     = Some (True, 2, 2, [Sdk (Toupcam_put_Option TOUPCAM_OPTION_BINNING (Val 258))])
   \<and> (2 :: int) \<noteq> 258"
  by (simp add: UpdateCCDBin_def UpdateCCDFrame_def setBin_def Let_def emit_def
      setFrameBufferSize_def cam0_def accept_all_def make_even_def smod_int_alt_def)

text \<open>
  Claim C10. For every video format request that passes the checks of the driver (not
  busy, a known format, supported by the camera), whatever the target format: the driver
  stops the camera and writes 1 to the raw option; once that is accepted it writes 1 to
  the bit depth option; once that is accepted it writes \<^verbatim>\<open>TOUPCAM_PIXELFORMAT_RAW12\<close> to the
  pixel format option. No other value is written to any of these three options during
  the request.
\<close>

theorem video_format_fixed_option_writes:
  assumes "\<not> isBusy (Streamer s)" and "find_format targetFormat VideoFormatS = Some target"
    and "\<not> (m_MaxBitDepth s = 8 \<and> target = TC_VIDEO_MONO_16)"
    and "\<not> (target = TC_VIDEO_RAW \<and> \<not> m_RAWFormatSupport s)"
    and "\<not> (target = TC_VIDEO_RGB \<and> FLAG_MONO s)"
  shows "take (length (trace s)) (trace (ISNewSwitch_VideoFormat targetFormat raw hw s)) = trace s
     \<and> take 2 (drop (length (trace s)) (trace (ISNewSwitch_VideoFormat targetFormat raw hw s)))
         = [Sdk Toupcam_Stop, Sdk (Toupcam_put_Option TOUPCAM_OPTION_RAW (Val 1))]
     \<and> (0 \<le> hw (Toupcam_put_Option TOUPCAM_OPTION_RAW (Val 1)) \<longrightarrow>
          take 3 (drop (length (trace s)) (trace (ISNewSwitch_VideoFormat targetFormat raw hw s)))
            = [Sdk Toupcam_Stop, Sdk (Toupcam_put_Option TOUPCAM_OPTION_RAW (Val 1)),
               Sdk (Toupcam_put_Option TOUPCAM_OPTION_BITDEPTH (Val 1))])
     \<and> (0 \<le> hw (Toupcam_put_Option TOUPCAM_OPTION_RAW (Val 1))
          \<and> 0 \<le> hw (Toupcam_put_Option TOUPCAM_OPTION_BITDEPTH (Val 1)) \<longrightarrow>
          take 4 (drop (length (trace s)) (trace (ISNewSwitch_VideoFormat targetFormat raw hw s)))
            = [Sdk Toupcam_Stop, Sdk (Toupcam_put_Option TOUPCAM_OPTION_RAW (Val 1)),
               Sdk (Toupcam_put_Option TOUPCAM_OPTION_BITDEPTH (Val 1)),
               Sdk (Toupcam_put_Option TOUPCAM_OPTION_PIXEL_FORMAT TOUPCAM_PIXELFORMAT_RAW12)])
     \<and> (\<forall>v. Sdk (Toupcam_put_Option TOUPCAM_OPTION_RAW v)
               \<in> set (drop (length (trace s)) (trace (ISNewSwitch_VideoFormat targetFormat raw hw s)))
            \<longrightarrow> v = Val 1)
     \<and> (\<forall>v. Sdk (Toupcam_put_Option TOUPCAM_OPTION_BITDEPTH v)
               \<in> set (drop (length (trace s)) (trace (ISNewSwitch_VideoFormat targetFormat raw hw s)))
            \<longrightarrow> v = Val 1)
     \<and> (\<forall>v. Sdk (Toupcam_put_Option TOUPCAM_OPTION_PIXEL_FORMAT v)
               \<in> set (drop (length (trace s)) (trace (ISNewSwitch_VideoFormat targetFormat raw hw s)))
            \<longrightarrow> v = TOUPCAM_PIXELFORMAT_RAW12)"
  unfolding trace_ISNewSwitch_VideoFormat [OF assms]
  by (auto split: if_splits)

theorem video_format_fixed_option_writes_witness:
  "take 4 (trace (ISNewSwitch_VideoFormat ''TC_VIDEO_RAW'' (FMT_RGGB, 12) accept_all cam0))
     = [Sdk Toupcam_Stop, Sdk (Toupcam_put_Option TOUPCAM_OPTION_RAW (Val 1)),
        Sdk (Toupcam_put_Option TOUPCAM_OPTION_BITDEPTH (Val 1)),
        Sdk (Toupcam_put_Option TOUPCAM_OPTION_PIXEL_FORMAT TOUPCAM_PIXELFORMAT_RAW12)]
   \<and> take 4 (trace (ISNewSwitch_VideoFormat ''TC_VIDEO_MONO_8'' (FMT_RGGB, 12) accept_all cam0))
     = [Sdk Toupcam_Stop, Sdk (Toupcam_put_Option TOUPCAM_OPTION_RAW (Val 1)),
        Sdk (Toupcam_put_Option TOUPCAM_OPTION_BITDEPTH (Val 1)),
        Sdk (Toupcam_put_Option TOUPCAM_OPTION_PIXEL_FORMAT TOUPCAM_PIXELFORMAT_RAW12)]"
proof -
  have tr: "trace cam0 = []"
    by (simp add: cam0_def)
  have raw: "\<not> isBusy (Streamer cam0)" "find_format ''TC_VIDEO_RAW'' VideoFormatS = Some TC_VIDEO_RAW"
    "\<not> (m_MaxBitDepth cam0 = 8 \<and> TC_VIDEO_RAW = TC_VIDEO_MONO_16)"
    "\<not> (TC_VIDEO_RAW = TC_VIDEO_RAW \<and> \<not> m_RAWFormatSupport cam0)"
    "\<not> (TC_VIDEO_RAW = TC_VIDEO_RGB \<and> FLAG_MONO cam0)"
    by (simp_all add: cam0_def VideoFormatS_def)
  have mono: "\<not> isBusy (Streamer cam0)"
    "find_format ''TC_VIDEO_MONO_8'' VideoFormatS = Some TC_VIDEO_MONO_8"
    "\<not> (m_MaxBitDepth cam0 = 8 \<and> TC_VIDEO_MONO_8 = TC_VIDEO_MONO_16)"
    "\<not> (TC_VIDEO_MONO_8 = TC_VIDEO_RAW \<and> \<not> m_RAWFormatSupport cam0)"
    "\<not> (TC_VIDEO_MONO_8 = TC_VIDEO_RGB \<and> FLAG_MONO cam0)"
    by (simp_all add: cam0_def VideoFormatS_def)
  show ?thesis
    using video_format_fixed_option_writes [OF raw, of "(FMT_RGGB, 12)" accept_all]
      video_format_fixed_option_writes [OF mono, of "(FMT_RGGB, 12)" accept_all]
    by (simp add: accept_all_def tr)
qed

section \<open>Guide pulse sequencer: the claims\<close>

text \<open>
  Claim C8, as amended. A guide pulse on either axis whose hardware command is accepted:
  below 50 ms the call sleeps for \<open>ms\<close> milliseconds (\<^verbatim>\<open>usleep\<close> of \<open>1000 ms\<close>
  microseconds) and returns \<^verbatim>\<open>IPS_OK\<close>, with no timer armed and no timer identifier kept;
  from 50 ms on it arms one timer with the callback of its axis, keeps the timer's
  identifier and returns \<^verbatim>\<open>IPS_BUSY\<close>, and that callback, when the timer fires, signals
  \<^verbatim>\<open>GuideComplete\<close> for the axis and forgets the identifier. The delay of the timer is
  \<open>ms\<close> converted to \<^verbatim>\<open>int\<close>: \<open>ms\<close> milliseconds when \<open>ms\<close> is below \<open>2 ^ 31\<close>, a
  negative number from \<open>2 ^ 31\<close> on. The effects before the hardware command are those of
  stopping the axis' previous timer.
\<close>

theorem guide_pulse_short_or_timed:
  assumes "0 \<le> hw (Toupcam_ST4PlusGuide dir ms)"
  shows "(ms < 50 \<longrightarrow>
            fst (guidePulseNS ms dir now tid hw s) = IPS_OK
          \<and> trace (snd (guidePulseNS ms dir now tid hw s))
              = trace (stopTimerNS s) @ [Sdk (Toupcam_ST4PlusGuide dir ms), Usleep (1000 * uint ms)]
          \<and> NStimerID (snd (guidePulseNS ms dir now tid hw s)) = - 1
          \<and> fst (guidePulseWE ms dir now tid hw s) = IPS_OK
          \<and> trace (snd (guidePulseWE ms dir now tid hw s))
              = trace (stopTimerWE s) @ [Sdk (Toupcam_ST4PlusGuide dir ms), Usleep (1000 * uint ms)]
          \<and> WEtimerID (snd (guidePulseWE ms dir now tid hw s)) = - 1)
       \<and> (\<not> ms < 50 \<longrightarrow>
            fst (guidePulseNS ms dir now tid hw s) = IPS_BUSY
          \<and> trace (snd (guidePulseNS ms dir now tid hw s))
              = trace (stopTimerNS s)
                  @ [Sdk (Toupcam_ST4PlusGuide dir ms), IEAddTimer (sint ms) TimerHelperNS]
          \<and> NStimerID (snd (guidePulseNS ms dir now tid hw s)) = tid
          \<and> trace (fire TimerHelperNS (snd (guidePulseNS ms dir now tid hw s)))
              = trace (snd (guidePulseNS ms dir now tid hw s)) @ [GuideComplete AXIS_DE]
          \<and> NStimerID (fire TimerHelperNS (snd (guidePulseNS ms dir now tid hw s))) = - 1
          \<and> fst (guidePulseWE ms dir now tid hw s) = IPS_BUSY
          \<and> trace (snd (guidePulseWE ms dir now tid hw s))
              = trace (stopTimerWE s)
                  @ [Sdk (Toupcam_ST4PlusGuide dir ms), IEAddTimer (sint ms) TimerHelperWE]
          \<and> WEtimerID (snd (guidePulseWE ms dir now tid hw s)) = tid
          \<and> trace (fire TimerHelperWE (snd (guidePulseWE ms dir now tid hw s)))
              = trace (snd (guidePulseWE ms dir now tid hw s)) @ [GuideComplete AXIS_RA]
          \<and> WEtimerID (fire TimerHelperWE (snd (guidePulseWE ms dir now tid hw s))) = - 1
          \<and> (uint ms < 2 ^ 31 \<longrightarrow> sint ms = uint ms)
          \<and> (2 ^ 31 \<le> uint ms \<longrightarrow> sint ms < 0))"
proof (intro conjI impI)
  assume short: "ms < 50"
  note [simp] = sint_ms_short [OF short]
  show "fst (guidePulseNS ms dir now tid hw s) = IPS_OK"
    using assms short by (simp add: guidePulseNS_def Let_def not_less)
  show "trace (snd (guidePulseNS ms dir now tid hw s))
          = trace (stopTimerNS s) @ [Sdk (Toupcam_ST4PlusGuide dir ms), Usleep (1000 * uint ms)]"
    using assms short by (simp add: guidePulseNS_def Let_def not_less emit_def)
  show "NStimerID (snd (guidePulseNS ms dir now tid hw s)) = - 1"
    using assms short by (simp add: guidePulseNS_def Let_def not_less emit_def trace_stopTimerNS)
  show "fst (guidePulseWE ms dir now tid hw s) = IPS_OK"
    using assms short by (simp add: guidePulseWE_def Let_def not_less)
  show "trace (snd (guidePulseWE ms dir now tid hw s))
          = trace (stopTimerWE s) @ [Sdk (Toupcam_ST4PlusGuide dir ms), Usleep (1000 * uint ms)]"
    using assms short by (simp add: guidePulseWE_def Let_def not_less emit_def)
  show "WEtimerID (snd (guidePulseWE ms dir now tid hw s)) = - 1"
    using assms short by (simp add: guidePulseWE_def Let_def not_less emit_def trace_stopTimerWE)
next
  assume long: "\<not> ms < 50"
  show "fst (guidePulseNS ms dir now tid hw s) = IPS_BUSY"
    using assms long by (simp add: guidePulseNS_def Let_def not_less)
  show "trace (snd (guidePulseNS ms dir now tid hw s))
          = trace (stopTimerNS s)
              @ [Sdk (Toupcam_ST4PlusGuide dir ms), IEAddTimer (sint ms) TimerHelperNS]"
    using assms long by (simp add: guidePulseNS_def Let_def emit_def)
  show "NStimerID (snd (guidePulseNS ms dir now tid hw s)) = tid"
    using assms long by (simp add: guidePulseNS_def Let_def emit_def)
  show "trace (fire TimerHelperNS (snd (guidePulseNS ms dir now tid hw s)))
          = trace (snd (guidePulseNS ms dir now tid hw s)) @ [GuideComplete AXIS_DE]"
    by (simp add: TimerNS_def emit_def)
  show "NStimerID (fire TimerHelperNS (snd (guidePulseNS ms dir now tid hw s))) = - 1"
    by (simp add: TimerNS_def emit_def)
  show "fst (guidePulseWE ms dir now tid hw s) = IPS_BUSY"
    using assms long by (simp add: guidePulseWE_def Let_def not_less)
  show "trace (snd (guidePulseWE ms dir now tid hw s))
          = trace (stopTimerWE s)
              @ [Sdk (Toupcam_ST4PlusGuide dir ms), IEAddTimer (sint ms) TimerHelperWE]"
    using assms long by (simp add: guidePulseWE_def Let_def emit_def)
  show "WEtimerID (snd (guidePulseWE ms dir now tid hw s)) = tid"
    using assms long by (simp add: guidePulseWE_def Let_def emit_def)
  show "trace (fire TimerHelperWE (snd (guidePulseWE ms dir now tid hw s)))
          = trace (snd (guidePulseWE ms dir now tid hw s)) @ [GuideComplete AXIS_RA]"
    by (simp add: TimerWE_def emit_def)
  show "WEtimerID (fire TimerHelperWE (snd (guidePulseWE ms dir now tid hw s))) = - 1"
    by (simp add: TimerWE_def emit_def)
next
  assume "uint ms < 2 ^ 31"
  then show "sint ms = uint ms"
    by (rule sint_below)
next
  assume "2 ^ 31 \<le> uint ms"
  then show "sint ms < 0"
    by (rule sint_above)
qed


theorem guide_pulse_short_or_timed_witness:
  "guidePulseNS 40 TOUPCAM_NORTH (100, 0) 7 accept_all cam0
     = (IPS_OK, snd (guidePulseNS 40 TOUPCAM_NORTH (100, 0) 7 accept_all cam0))
   \<and> trace (snd (guidePulseNS 40 TOUPCAM_NORTH (100, 0) 7 accept_all cam0))
       = [Sdk (Toupcam_ST4PlusGuide TOUPCAM_NORTH 40), Usleep 40000]
   \<and> fst (guidePulseWE 200 TOUPCAM_EAST (100, 0) 7 accept_all cam0) = IPS_BUSY
   \<and> trace (fire TimerHelperWE (snd (guidePulseWE 200 TOUPCAM_EAST (100, 0) 7 accept_all cam0)))
       = [Sdk (Toupcam_ST4PlusGuide TOUPCAM_EAST 200), IEAddTimer 200 TimerHelperWE,
          GuideComplete AXIS_RA]"
proof -
  have acc: "0 \<le> accept_all (Toupcam_ST4PlusGuide TOUPCAM_NORTH 40)"
    "0 \<le> accept_all (Toupcam_ST4PlusGuide TOUPCAM_EAST 200)"
    by (simp_all add: accept_all_def)
  have idle: "trace (stopTimerNS cam0) = []" "trace (stopTimerWE cam0) = []"
    by (simp_all add: trace_stopTimerNS trace_stopTimerWE cam0_def)
  show ?thesis
    using guide_pulse_short_or_timed [of accept_all TOUPCAM_NORTH 40 "(100, 0)" 7 cam0, OF acc(1)]
      guide_pulse_short_or_timed [of accept_all TOUPCAM_EAST 200 "(100, 0)" 7 cam0, OF acc(2)]
    by (simp add: idle prod_eq_iff sint_below)
qed

text \<open>
  The claim as stated fails on "a timer for durationMs" for the longest pulses: a pulse of
  4294967295 ms is accepted and returns \<^verbatim>\<open>IPS_BUSY\<close>, and the timer it arms has the delay
  \<open>-1\<close>.
\<close>

theorem guide_pulse_timer_wraps_counterexample:
  "uint (4294967295 :: 32 word) = 4294967295
   \<and> fst (guidePulseNS 4294967295 TOUPCAM_NORTH (100, 0) 7 accept_all cam0) = IPS_BUSY
   \<and> last (trace (snd (guidePulseNS 4294967295 TOUPCAM_NORTH (100, 0) 7 accept_all cam0)))
       = IEAddTimer (- 1) TimerHelperNS
   \<and> fst (guidePulseWE 4294967295 TOUPCAM_EAST (100, 0) 7 accept_all cam0) = IPS_BUSY
   \<and> last (trace (snd (guidePulseWE 4294967295 TOUPCAM_EAST (100, 0) 7 accept_all cam0)))
       = IEAddTimer (- 1) TimerHelperWE"
  by (simp add: guidePulseNS_def guidePulseWE_def stopTimerNS_def stopTimerWE_def Let_def
      emit_def accept_all_def cam0_def)


section \<open>Further properties\<close>

text \<open>
  Property X1. A video format switch that passes the checks of the driver and whose
  hardware calls are all accepted ends with the requested format active and the frame
  buffer sized by \<^verbatim>\<open>allocateFrameBuffer\<close> from the full sensor resolution: for Mono 8,
  Mono 16 and RGB it is \<^verbatim>\<open>XRes * YRes\<close> times the bytes per pixel times the channel count
  of the new format; for Raw it is \<^verbatim>\<open>XRes * YRes * bits / 8\<close> with the bit depth the SDK
  reports.
\<close>

theorem video_format_switch_buffer_size:
  assumes "\<not> isBusy (Streamer s)" and "find_format targetFormat VideoFormatS = Some target"
    and "\<not> (m_MaxBitDepth s = 8 \<and> target = TC_VIDEO_MONO_16)"
    and "\<not> (target = TC_VIDEO_RAW \<and> \<not> m_RAWFormatSupport s)"
    and "\<not> (target = TC_VIDEO_RGB \<and> FLAG_MONO s)"
    and "\<forall>call. 0 \<le> hw call"
  shows "currentVideoFormat (ISNewSwitch_VideoFormat targetFormat raw hw s) = target
     \<and> VideoFormatSP_s (ISNewSwitch_VideoFormat targetFormat raw hw s) = IPS_OK
     \<and> (target \<noteq> TC_VIDEO_RAW \<longrightarrow>
          FrameBufferSize (PrimaryCCD (ISNewSwitch_VideoFormat targetFormat raw hw s))
            = (XRes (PrimaryCCD s) * YRes (PrimaryCCD s)
                * (m_BitsPerPixel (ISNewSwitch_VideoFormat targetFormat raw hw s) div 8)
                * m_Channels (ISNewSwitch_VideoFormat targetFormat raw hw s)) mod 2 ^ 32)
     \<and> (target = TC_VIDEO_RAW \<longrightarrow>
          m_BitsPerPixel (ISNewSwitch_VideoFormat targetFormat raw hw s) = snd raw
          \<and> m_Channels (ISNewSwitch_VideoFormat targetFormat raw hw s) = 1
          \<and> FrameBufferSize (PrimaryCCD (ISNewSwitch_VideoFormat targetFormat raw hw s))
            = (XRes (PrimaryCCD s) * YRes (PrimaryCCD s) * snd raw sdiv 8) mod 2 ^ 32)"
proof -
  have acc: "\<And>call. \<not> hw call < 0"
    using assms(6) by (simp add: not_less)
  have run: "ISNewSwitch_VideoFormat targetFormat raw hw s =
      apply_format target raw
        (emit (Sdk (Toupcam_get_Option TOUPCAM_OPTION_RGB))
          (if target \<noteq> TC_VIDEO_RAW
           then emit (Sdk (Toupcam_put_Option TOUPCAM_OPTION_RGB
                  (Val (if target = TC_VIDEO_MONO_8 then 3
                        else if target = TC_VIDEO_MONO_16 then 4 else 0))))
                  (emit (Sdk (Toupcam_put_Option TOUPCAM_OPTION_PIXEL_FORMAT TOUPCAM_PIXELFORMAT_RAW12))
                    (emit (Sdk (Toupcam_put_Option TOUPCAM_OPTION_BITDEPTH (Val 1)))
                      (emit (Sdk (Toupcam_put_Option TOUPCAM_OPTION_RAW (Val 1)))
                        (emit (Sdk Toupcam_Stop) s))))
           else emit (Sdk (Toupcam_put_Option TOUPCAM_OPTION_PIXEL_FORMAT TOUPCAM_PIXELFORMAT_RAW12))
                    (emit (Sdk (Toupcam_put_Option TOUPCAM_OPTION_BITDEPTH (Val 1)))
                      (emit (Sdk (Toupcam_put_Option TOUPCAM_OPTION_RAW (Val 1)))
                        (emit (Sdk Toupcam_Stop) s)))))"
    using assms(1-5) by (auto simp add: ISNewSwitch_VideoFormat_def Let_def acc)
  show ?thesis
    unfolding run
    by (cases target)
       (simp_all add: apply_format_def allocateFrameBuffer_def setFrameBufferSize_def
         getBayerString_def Let_def emit_def)
qed

theorem video_format_switch_buffer_size_witness:
  "currentVideoFormat cam_mono16 = TC_VIDEO_MONO_16
   \<and> m_BitsPerPixel cam_mono16 = 16
   \<and> FrameBufferSize (PrimaryCCD cam_mono16) = 16"
proof -
  have pre: "\<not> isBusy (Streamer cam0)"
    "find_format ''TC_VIDEO_MONO_16'' VideoFormatS = Some TC_VIDEO_MONO_16"
    "\<not> (m_MaxBitDepth cam0 = 8 \<and> TC_VIDEO_MONO_16 = TC_VIDEO_MONO_16)"
    "\<not> (TC_VIDEO_MONO_16 = TC_VIDEO_RAW \<and> \<not> m_RAWFormatSupport cam0)"
    "\<not> (TC_VIDEO_MONO_16 = TC_VIDEO_RGB \<and> FLAG_MONO cam0)"
    "\<forall>call. 0 \<le> accept_all call"
    by (simp_all add: cam0_def VideoFormatS_def accept_all_def)
  have res: "XRes (PrimaryCCD cam0) = 4" "YRes (PrimaryCCD cam0) = 2"
    by (simp_all add: cam0_def)
  show ?thesis
    using video_format_switch_buffer_size [OF pre, of "(FMT_RGGB, 12)"]
    by (simp add: cam_mono16_def [symmetric] cam_mono16_eval res)
qed

text \<open>
  Property X2. While the camera streams, an image event whose pull succeeds (and fits the
  frame buffer) pulls the image straight into the frame buffer and passes it to the
  streamer with \<^verbatim>\<open>newFrame\<close>, once, with no \<^verbatim>\<open>ExposureComplete\<close>, no temporary buffer
  and the flags untouched.
\<close>

theorem streaming_image_event_publishes:
  assumes "isStreaming (Streamer s)" and "0 \<le> rc"
    and "length data \<le> length (FrameBuffer (PrimaryCCD s))"
  shows "eventPullCallBack TOUPCAM_EVENT_IMAGE rc data s =
           Some (emit (Streamer_newFrame (FrameBufferSize (PrimaryCCD s)))
                  ((emit (Sdk (Toupcam_PullImageV2 (m_BitsPerPixel s * m_Channels s))) s)
                     \<lparr>PrimaryCCD := (PrimaryCCD s)
                        \<lparr>FrameBuffer := data @ drop (length data) (FrameBuffer (PrimaryCCD s))\<rparr>\<rparr>))"
  using assms
  by (simp add: eventPullCallBack_def image_event_streaming_def Let_def pull_into_def emit_def)

theorem streaming_image_event_publishes_witness:
  "map_option (\<lambda>s'. (trace s', take 4 (FrameBuffer (PrimaryCCD s'))))
     (eventPullCallBack TOUPCAM_EVENT_IMAGE 0 [1, 2, 3] cam_streaming)
     = Some ([Sdk (Toupcam_PullImageV2 24), Streamer_newFrame 24], [1, 2, 3, 0])"
proof -
  have pre: "isStreaming (Streamer cam_streaming)" "(0 :: int) \<le> 0"
    "length [1, 2, 3 :: byte] \<le> length (FrameBuffer (PrimaryCCD cam_streaming))"
    by (simp_all add: cam_streaming_def cam0_def)
  show ?thesis
    using streaming_image_event_publishes [OF pre]
    by (simp add: cam_streaming_def cam0_def emit_def)
qed

text \<open>
  Property X3. The two guide axes are independent: a pulse, a timer callback or a timer
  stop on one axis leaves the timer identifier, the pulse end and the direction of the
  other axis as they were.
\<close>

theorem guide_axes_independent:
  "NStimerID (snd (guidePulseWE ms dir now tid hw s)) = NStimerID s
   \<and> NSPulseEnd (snd (guidePulseWE ms dir now tid hw s)) = NSPulseEnd s
   \<and> NSDir (snd (guidePulseWE ms dir now tid hw s)) = NSDir s
   \<and> NStimerID (TimerWE s) = NStimerID s \<and> NSPulseEnd (TimerWE s) = NSPulseEnd s
   \<and> NStimerID (stopTimerWE s) = NStimerID s \<and> NSPulseEnd (stopTimerWE s) = NSPulseEnd s
   \<and> WEtimerID (snd (guidePulseNS ms dir now tid hw s)) = WEtimerID s
   \<and> WEPulseEnd (snd (guidePulseNS ms dir now tid hw s)) = WEPulseEnd s
   \<and> WEDir (snd (guidePulseNS ms dir now tid hw s)) = WEDir s
   \<and> WEtimerID (TimerNS s) = WEtimerID s \<and> WEPulseEnd (TimerNS s) = WEPulseEnd s
   \<and> WEtimerID (stopTimerNS s) = WEtimerID s \<and> WEPulseEnd (stopTimerNS s) = WEPulseEnd s"
  by (simp add: guidePulseWE_def guidePulseNS_def TimerWE_def TimerNS_def stopTimerWE_def
      stopTimerNS_def Let_def emit_def)

text \<open>
  Property X4. A video format request made while the streamer is busy is refused with an
  alert and nothing else happens: no SDK call is made, so capture is never stopped.
\<close>

theorem video_format_refused_while_busy:
  assumes "isBusy (Streamer s)"
  shows "ISNewSwitch_VideoFormat targetFormat raw hw s = s\<lparr>VideoFormatSP_s := IPS_ALERT\<rparr>"
  using assms by (simp add: ISNewSwitch_VideoFormat_def)

theorem video_format_refused_while_busy_witness:
  "isBusy (Streamer cam_streaming)
   \<and> VideoFormatSP_s (ISNewSwitch_VideoFormat ''TC_VIDEO_RAW'' (FMT_RGGB, 12) accept_all cam_streaming)
       = IPS_ALERT
   \<and> trace (ISNewSwitch_VideoFormat ''TC_VIDEO_RAW'' (FMT_RGGB, 12) accept_all cam_streaming) = []"
proof -
  have busy: "isBusy (Streamer cam_streaming)"
    by (simp add: cam_streaming_def)
  have tr: "trace cam_streaming = []"
    by (simp add: cam_streaming_def cam0_def)
  show ?thesis
    using video_format_refused_while_busy [OF busy, of "''TC_VIDEO_RAW''" "(FMT_RGGB, 12)" accept_all]
    by (simp add: busy tr)
qed

end
